theory Spec2Isabelle
  imports Complex_Main "HOL-Library.Signed_Division"
begin

section \<open>Data model (services/supabaseClient.ts)\<close>

text \<open>
  The three interfaces of the client are records. Field names are those of the source;
  where two interfaces share a field name the later ones carry a prefix
  (\<open>c_\<close> for Content, \<open>d_\<close> for Device, \<open>dc_\<close> for DeviceContent).
  A JavaScript \<open>number\<close> that holds an integer is an \<open>int\<close>; an optional field and
  a nullable column are an \<open>option\<close>.
\<close>

datatype content_type = Text | Image | Video

record Content =
  c_id :: string
  c_user_id :: string
  title :: string
  content_type :: content_type
  text_content :: "string option"
  file_url :: "string option"
  file_name :: "string option"
  file_size :: "int option"
  duration :: int
  c_is_active :: bool
  c_created_at :: string
  c_updated_at :: string

record Device =
  d_id :: string
  device_code :: string
  device_name :: string
  user_id :: "string option"
  is_online :: bool
  last_seen :: string
  wifi_ssid :: "string option"
  ip_address :: "string option"
  mac_address :: "string option"
  location :: "string option"
  d_created_at :: string
  d_updated_at :: string

record DeviceContent =
  dc_id :: string
  device_id :: string
  content_id :: string
  display_order :: int
  is_active :: bool
  scheduled_start :: "string option"
  scheduled_end :: "string option"
  dc_created_at :: string
  dc_content :: "Content option"

section \<open>Errors and the browser environment\<close>

text \<open>
  Everything the source can \<open>throw\<close> is a value of \<open>js_error\<close>; a function that can
  raise returns \<open>js_error + 'a\<close> with \<open>Inl\<close> for the raised error.
\<close>

datatype js_error =
    PostgrestError string
  | NetworkError
  | StorageError
  | SyntaxError
  | Error string

text \<open>
  A Supabase call is awaited. The promise either rejects, or resolves to the object
  \<open>{ data, error }\<close>, either of which may be \<open>null\<close>.
\<close>

datatype 'a response = Rejects js_error | Resolves "'a option" "js_error option"

text \<open>
  A Web Storage area (\<open>localStorage\<close>, \<open>sessionStorage\<close>). Every slot used here has
  one writer, so it holds one kind of text: a plain text (\<open>Str\<close>: the device
  identifier, the pairing code), the decimal text of a number (\<open>Num\<close>, kept as the
  number: the cache time stamp) or the text written by \<open>JSON.stringify\<close> of a playlist
  (\<open>Json\<close>, kept as the playlist it parses to). A reader that finds another kind
  treats it as a text it cannot use. When the area is unavailable every access raises.
\<close>

datatype item = Str string | Num int | Json "Content list"

record storage =
  throws :: bool
  items :: "string \<Rightarrow> item option"

definition getItem :: "string \<Rightarrow> storage \<Rightarrow> js_error + item option" where
  "getItem k s = (if throws s then Inl StorageError else Inr (items s k))"

definition setItem :: "string \<Rightarrow> item \<Rightarrow> storage \<Rightarrow> js_error + storage" where
  "setItem k v s = (if throws s then Inl StorageError else Inr (s\<lparr>items := (items s)(k \<mapsto> v)\<rparr>))"

definition removeItem :: "string \<Rightarrow> storage \<Rightarrow> js_error + storage" where
  "removeItem k s = (if throws s then Inl StorageError else Inr (s\<lparr>items := (items s)(k := None)\<rparr>))"

text \<open>
  The rest of the environment: the clock (\<open>Date.now()\<close> in milliseconds and the text of
  \<open>new Date().toISOString()\<close>), and the sources of randomness. The \<open>n\<close>-th call of
  \<open>Math.random()\<close> returns \<open>math_random n\<close>, the \<open>n\<close>-th call of
  \<open>crypto.randomUUID()\<close> returns the UUID with the hexadecimal digits \<open>random_uuid n\<close>.
  \<open>toString36\<close> stands for the built-in \<open>Number.prototype.toString(36)\<close>.
\<close>

record world =
  localStorage :: storage
  sessionStorage :: storage
  date_now :: int
  date_iso :: string
  math_random :: "nat \<Rightarrow> real"
  random_used :: nat
  random_uuid :: "nat \<Rightarrow> string"
  uuid_used :: nat
  toString36 :: "real \<Rightarrow> string"

definition Math_random :: "world \<Rightarrow> real \<times> world" where
  "Math_random w = (math_random w (random_used w), w\<lparr>random_used := Suc (random_used w)\<rparr>)"

text \<open>
  The text of a UUID: five groups of 8, 4, 4, 4 and 12 hexadecimal digits, separated by
  hyphens.
\<close>

definition uuid_text :: "string \<Rightarrow> string" where
  "uuid_text h =
     take 8 h @ ''-'' @ take 4 (drop 8 h) @ ''-'' @ take 4 (drop 12 h) @ ''-''
       @ take 4 (drop 16 h) @ ''-'' @ take 12 (drop 20 h)"

definition randomUUID :: "world \<Rightarrow> string \<times> world" where
  "randomUUID w = (uuid_text (random_uuid w (uuid_used w)), w\<lparr>uuid_used := Suc (uuid_used w)\<rparr>)"

text \<open>Decimal text of a natural number (\<open>Number.prototype.toString()\<close> on it).\<close>

fun toString :: "nat \<Rightarrow> string" where
  "toString n =
     (if n < 10 then [''0123456789'' ! n]
      else toString (n div 10) @ [''0123456789'' ! (n mod 10)])"

declare toString.simps [simp del]

section \<open>Device identity and pairing code (services/deviceService.ts)\<close>

text \<open>\<open>Math.floor(100000 + Math.random() * 900000).toString()\<close>\<close>

definition generateDeviceCode :: "world \<Rightarrow> string \<times> world" where
  "generateDeviceCode w =
     (case Math_random w of (u, w') \<Rightarrow> (toString (nat \<lfloor>100000 + u * 900000\<rfloor>), w'))"

text \<open>
  A slot that is read as plain text: the text when it is present and not empty (truthy
  in JavaScript). The slots read this way are only ever written with \<open>Str\<close>.
\<close>

definition truthy :: "item option \<Rightarrow> string option" where
  "truthy v = (case v of Some (Str t) \<Rightarrow> (if t \<noteq> [] then Some t else None) | _ \<Rightarrow> None)"

text \<open>The body of the \<open>try\<close> block of \<open>getDeviceId\<close>.\<close>

definition getDeviceId_try :: "world \<Rightarrow> (js_error + string) \<times> world" where
  "getDeviceId_try w =
     (case removeItem ''device_code'' (localStorage w) of
        Inl e \<Rightarrow> (Inl e, w)
      | Inr s1 \<Rightarrow>
     (case removeItem ''device_code_timestamp'' s1 of
        Inl e \<Rightarrow> (Inl e, w\<lparr>localStorage := s1\<rparr>)
      | Inr s2 \<Rightarrow>
     (case getItem ''device_id'' s2 of
        Inl e \<Rightarrow> (Inl e, w\<lparr>localStorage := s2\<rparr>)
      | Inr v \<Rightarrow>
     (case truthy v of
        Some deviceId \<Rightarrow> (Inr deviceId, w\<lparr>localStorage := s2\<rparr>)
      | None \<Rightarrow>
          (case randomUUID (w\<lparr>localStorage := s2\<rparr>) of (deviceId, w') \<Rightarrow>
            (case setItem ''device_id'' (Str deviceId) s2 of
               Inl e \<Rightarrow> (Inl e, w')
             | Inr s3 \<Rightarrow> (Inr deviceId, w'\<lparr>localStorage := s3\<rparr>)))))))"

text \<open>
  \<open>getDeviceId\<close>: the \<open>catch\<close> block returns
  \<open>'fallback-' + Math.random().toString(36).substring(2, 11)\<close>.
\<close>

definition getDeviceId :: "world \<Rightarrow> string \<times> world" where
  "getDeviceId w =
     (case getDeviceId_try w of
        (Inr deviceId, w') \<Rightarrow> (deviceId, w')
      | (Inl e, w') \<Rightarrow>
          (case Math_random w' of (u, w'') \<Rightarrow>
             (''fallback-'' @ take 9 (drop 2 (toString36 w'' u)), w'')))"

text \<open>\<open>getDeviceCode\<close>: the code of this session, generated on first use.\<close>

definition getDeviceCode_try :: "world \<Rightarrow> (js_error + string) \<times> world" where
  "getDeviceCode_try w =
     (case getItem ''device_code'' (sessionStorage w) of
        Inl e \<Rightarrow> (Inl e, w)
      | Inr v \<Rightarrow>
     (case truthy v of
        Some deviceCode \<Rightarrow> (Inr deviceCode, w)
      | None \<Rightarrow>
          (case generateDeviceCode w of (deviceCode, w') \<Rightarrow>
            (case setItem ''device_code'' (Str deviceCode) (sessionStorage w') of
               Inl e \<Rightarrow> (Inl e, w')
             | Inr s \<Rightarrow> (Inr deviceCode, w'\<lparr>sessionStorage := s\<rparr>)))))"

definition getDeviceCode :: "world \<Rightarrow> string \<times> world" where
  "getDeviceCode w =
     (case getDeviceCode_try w of
        (Inr deviceCode, w') \<Rightarrow> (deviceCode, w')
      | (Inl e, w') \<Rightarrow> generateDeviceCode w')"

text \<open>\<open>refreshDeviceCode\<close> (the service's): has no \<open>try\<close>, a failing store raises.\<close>

definition refreshDeviceCode :: "world \<Rightarrow> (js_error + string) \<times> world" where
  "refreshDeviceCode w =
     (case generateDeviceCode w of (deviceCode, w') \<Rightarrow>
        (case setItem ''device_code'' (Str deviceCode) (sessionStorage w') of
           Inl e \<Rightarrow> (Inl e, w')
         | Inr s \<Rightarrow> (Inr deviceCode, w'\<lparr>sessionStorage := s\<rparr>)))"

section \<open>Content service (services/contentService.ts)\<close>

text \<open>
  \<open>getDeviceContent\<close>. The argument is the outcome of the awaited query on
  \<open>device_content\<close> (filtered and ordered by the server). The \<open>try\<close> block raises
  the error of the response; \<open>data?.map(item => item.content).filter(Boolean) || []\<close>
  keeps the joined items that are present. An asynchronous function is one atomic
  step here: the storage does not change while the query is awaited.
\<close>

definition getDeviceContent_try :: "DeviceContent list response \<Rightarrow> js_error + Content list" where
  "getDeviceContent_try r =
     (case r of
        Rejects e \<Rightarrow> Inl e
      | Resolves data (Some e) \<Rightarrow> Inl e
      | Resolves None None \<Rightarrow> Inr []
      | Resolves (Some rows) None \<Rightarrow> Inr (List.map_filter dc_content rows))"

definition getDeviceContent ::
  "DeviceContent list response \<Rightarrow> world \<Rightarrow> (js_error + Content list) \<times> world" where
  "getDeviceContent r w =
     (case getDeviceId w of (deviceId, w') \<Rightarrow>
        (case getDeviceContent_try r of
           Inr content \<Rightarrow> (Inr content, w')
         | Inl e \<Rightarrow> (Inr [], w')))"

text \<open>\<open>cacheContent\<close>: both writes are inside one \<open>try\<close>; an error is logged only.\<close>

definition cacheContent :: "Content list \<Rightarrow> world \<Rightarrow> world" where
  "cacheContent content w =
     (case setItem ''cached_content'' (Json content) (localStorage w) of
        Inl e \<Rightarrow> w
      | Inr s1 \<Rightarrow>
          (case setItem ''cache_timestamp'' (Num (date_now w)) s1 of
             Inl e \<Rightarrow> w\<lparr>localStorage := s1\<rparr>
           | Inr s2 \<Rightarrow> w\<lparr>localStorage := s2\<rparr>))"

text \<open>
  \<open>getCachedContent\<close>: \<open>JSON.parse\<close> raises on a text that is not JSON; every error
  ends in \<open>return []\<close>.
\<close>

definition getCachedContent_try :: "world \<Rightarrow> js_error + Content list option" where
  "getCachedContent_try w =
     (case getItem ''cached_content'' (localStorage w) of
        Inl e \<Rightarrow> Inl e
      | Inr None \<Rightarrow> Inr None
      | Inr (Some (Json content)) \<Rightarrow> Inr (Some content)
      | Inr (Some (Str t)) \<Rightarrow> (if t = [] then Inr None else Inl SyntaxError)
      | Inr (Some (Num n)) \<Rightarrow> Inl SyntaxError)"

definition getCachedContent :: "world \<Rightarrow> Content list" where
  "getCachedContent w =
     (case getCachedContent_try w of Inr (Some content) \<Rightarrow> content | _ \<Rightarrow> [])"

text \<open>
  \<open>isCacheValid\<close>: less than one hour old. \<open>parseInt\<close> of a text that is no number is
  \<open>NaN\<close>, and every comparison with \<open>NaN\<close> is false.
\<close>

definition isCacheValid :: "world \<Rightarrow> bool" where
  "isCacheValid w =
     (case getItem ''cache_timestamp'' (localStorage w) of
        Inl e \<Rightarrow> False
      | Inr (Some (Num timestamp)) \<Rightarrow> date_now w - timestamp < 60 * 60 * 1000
      | Inr _ \<Rightarrow> False)"

text \<open>
  The texts of the built-in items. Characters outside ASCII are given by their UTF-8
  bytes; \<open>nl\<close> is the line feed.
\<close>

definition nl :: string where "nl = [CHR 0x0A]"
definition rocket :: string where "rocket = [CHR 0xF0, CHR 0x9F, CHR 0x9A, CHR 0x80]"
definition bullet :: string where "bullet = [CHR 0xE2, CHR 0x80, CHR 0xA2]"
definition sparkles :: string where "sparkles = [CHR 0xE2, CHR 0x9C, CHR 0xA8]"
definition mobile_phone :: string where "mobile_phone = [CHR 0xF0, CHR 0x9F, CHR 0x93, CHR 0xB1]"
definition palette :: string where "palette = [CHR 0xF0, CHR 0x9F, CHR 0x8E, CHR 0xA8]"
definition arrows :: string where "arrows = [CHR 0xF0, CHR 0x9F, CHR 0x94, CHR 0x84]"
definition phone_arrow :: string where "phone_arrow = [CHR 0xF0, CHR 0x9F, CHR 0x93, CHR 0xB2]"
definition link_symbol :: string where "link_symbol = [CHR 0xF0, CHR 0x9F, CHR 0x94, CHR 0x97]"
definition memo :: string where "memo = [CHR 0xF0, CHR 0x9F, CHR 0x93, CHR 0x9D]"
definition bullseye :: string where "bullseye = [CHR 0xF0, CHR 0x9F, CHR 0x8E, CHR 0xAF]"

definition default_welcome :: "string \<Rightarrow> Content" where
  "default_welcome stamp =
     \<lparr> c_id = ''default-welcome'', c_user_id = [],
       title = ''Welcome to PiBoard Innovators'', content_type = Text,
       text_content = Some (rocket @ '' Digital Signage Revolution'' @ nl @ nl
         @ ''Transforming communication through innovative display technology'' @ nl @ nl
         @ ''Connect '' @ bullet @ '' Display '' @ bullet @ '' Engage''),
       file_url = None, file_name = None, file_size = None,
       duration = 12, c_is_active = True, c_created_at = stamp, c_updated_at = stamp \<rparr>"

definition default_features :: "string \<Rightarrow> Content" where
  "default_features stamp =
     \<lparr> c_id = ''default-features'', c_user_id = [],
       title = ''Powered by Innovation'', content_type = Text,
       text_content = Some (sparkles @ '' Real-time Content Updates'' @ nl
         @ mobile_phone @ '' Mobile App Control'' @ nl
         @ palette @ '' Rich Media Support'' @ nl
         @ arrows @ '' Seamless Synchronization'' @ nl @ nl
         @ ''Your content, everywhere, instantly''),
       file_url = None, file_name = None, file_size = None,
       duration = 10, c_is_active = True, c_created_at = stamp, c_updated_at = stamp \<rparr>"

definition default_pairing :: "string \<Rightarrow> string \<Rightarrow> Content" where
  "default_pairing deviceCode stamp =
     \<lparr> c_id = ''default-pairing'', c_user_id = [],
       title = ''Ready to Connect'', content_type = Text,
       text_content = Some (phone_arrow @ '' Device Code: '' @ deviceCode @ nl @ nl
         @ link_symbol @ '' Open your PiBoard mobile app'' @ nl
         @ memo @ '' Enter the device code above'' @ nl
         @ bullseye @ '' Start sending amazing content!'' @ nl @ nl
         @ ''Let'' @ [CHR 0x27] @ ''s make your display come alive!''),
       file_url = None, file_name = None, file_size = None,
       duration = 15, c_is_active = True, c_created_at = stamp, c_updated_at = stamp \<rparr>"

text \<open>
  \<open>getDefaultContent\<close>: the array literal is evaluated in order, so the pairing code is
  read (and, in a new session, generated and stored) on the way.
\<close>

definition getDefaultContent :: "world \<Rightarrow> Content list \<times> world" where
  "getDefaultContent w =
     (case getDeviceCode w of (deviceCode, w') \<Rightarrow>
        ([default_welcome (date_iso w), default_features (date_iso w),
          default_pairing deviceCode (date_iso w)], w'))"

text \<open>
  \<open>getContentWithFallback\<close>. The \<open>try\<close> block returns the valid, non-empty cache, or
  else the fetched items when there are any; the \<open>catch\<close> block returns the cache
  whatever its age; what is left returns the built-in items.
\<close>

definition getContentWithFallback_catch :: "world \<Rightarrow> Content list \<times> world" where
  "getContentWithFallback_catch w =
     (let cachedContent = getCachedContent w in
      if length cachedContent > 0 then (cachedContent, w) else getDefaultContent w)"

definition getContentWithFallback_fetch ::
  "DeviceContent list response \<Rightarrow> world \<Rightarrow> Content list \<times> world" where
  "getContentWithFallback_fetch r w =
     (case getDeviceContent r w of
        (Inl e, w') \<Rightarrow> getContentWithFallback_catch w'
      | (Inr freshContent, w') \<Rightarrow>
          if length freshContent > 0 then (freshContent, cacheContent freshContent w')
          else getDefaultContent w')"

definition getContentWithFallback ::
  "DeviceContent list response \<Rightarrow> world \<Rightarrow> Content list \<times> world" where
  "getContentWithFallback r w =
     (if isCacheValid w then
        (let cachedContent = getCachedContent w in
         if length cachedContent > 0 then (cachedContent, w)
         else getContentWithFallback_fetch r w)
      else getContentWithFallback_fetch r w)"

section \<open>The content hook (hooks/useContentSubscription.ts)\<close>

text \<open>The three state variables of \<open>useContentSubscription\<close>, with their initial values.\<close>

record subscription_state =
  content :: "Content list"
  loading :: bool
  error :: "string option"

definition initial_subscription_state :: subscription_state where
  "initial_subscription_state = \<lparr> content = [], loading = True, error = None \<rparr>"

text \<open>
  \<open>loadContent\<close>: \<open>try\<close>, \<open>catch\<close> and \<open>finally\<close>. \<open>preloadMedia\<close> only creates image
  elements and is left out.
\<close>

fun loadContent_catch :: "subscription_state \<times> world \<Rightarrow> subscription_state \<times> world" where
  "loadContent_catch (h, w) =
     (let h1 = h\<lparr>error := Some ''Failed to load content''\<rparr>;
          cachedContent = getCachedContent w
      in if length cachedContent > 0 \<and> isCacheValid w
         then (h1\<lparr>content := cachedContent, error := Some ''Using cached content (offline)''\<rparr>, w)
         else (case getDefaultContent w of (d, w') \<Rightarrow> (h1\<lparr>content := d\<rparr>, w')))"

fun loadContent_try ::
  "DeviceContent list response \<Rightarrow> subscription_state \<times> world \<Rightarrow> subscription_state \<times> world" where
  "loadContent_try r (h, w) =
     (let h0 = h\<lparr>loading := True, error := None\<rparr> in
      case getDeviceContent r w of
        (Inl e, w') \<Rightarrow> loadContent_catch (h0, w')
      | (Inr freshContent, w') \<Rightarrow>
          if length freshContent > 0
          then (h0\<lparr>content := freshContent\<rparr>, cacheContent freshContent w')
          else (case getDefaultContent w' of (d, w'') \<Rightarrow> (h0\<lparr>content := d\<rparr>, w'')))"

definition loadContent ::
  "DeviceContent list response \<Rightarrow> subscription_state \<times> world \<Rightarrow> subscription_state \<times> world" where
  "loadContent r hw = (case loadContent_try r hw of (h', w') \<Rightarrow> (h'\<lparr>loading := False\<rparr>, w'))"


text \<open>
  The callback the hook hands to \<open>subscribeToContentUpdates\<close>. The two
  \<open>localStorage.removeItem\<close> calls are outside any \<open>try\<close> of the hook: an error leaves
  the callback after the state has been set.
\<close>

fun subscription_callback ::
  "Content list \<Rightarrow> subscription_state \<times> world \<Rightarrow> (js_error + unit) \<times> subscription_state \<times> world" where
  "subscription_callback newContent (h, w) =
     (let h1 = h\<lparr>loading := False, error := None\<rparr> in
      if length newContent > 0
      then (Inr (), h1\<lparr>content := newContent\<rparr>, cacheContent newContent w)
      else (case getDefaultContent w of (d, w1) \<Rightarrow>
        (case removeItem ''cached_content'' (localStorage w1) of
           Inl e \<Rightarrow> (Inl e, h1\<lparr>content := d\<rparr>, w1)
         | Inr s1 \<Rightarrow>
             (case removeItem ''cache_timestamp'' s1 of
                Inl e \<Rightarrow> (Inl e, h1\<lparr>content := d\<rparr>, w1\<lparr>localStorage := s1\<rparr>)
              | Inr s2 \<Rightarrow> (Inr (), h1\<lparr>content := d\<rparr>, w1\<lparr>localStorage := s2\<rparr>)))))"

text \<open>
  The body of the debounce timer in \<open>subscribeToContentUpdates\<close>: fetch, hand the items
  to the callback, log whatever is raised.
\<close>

definition refresh_and_callback ::
  "DeviceContent list response \<Rightarrow> subscription_state \<times> world \<Rightarrow> subscription_state \<times> world" where
  "refresh_and_callback r hw =
     (case hw of (h, w) \<Rightarrow>
        (case getDeviceContent r w of
           (Inl e, w') \<Rightarrow> (h, w')
         | (Inr fetched, w') \<Rightarrow> snd (subscription_callback fetched (h, w'))))"

text \<open>The built-in items are recognised by their three identifiers.\<close>

definition is_default_content :: "Content list \<Rightarrow> bool" where
  "is_default_content xs \<longleftrightarrow>
     map c_id xs = [''default-welcome'', ''default-features'', ''default-pairing'']"

section \<open>Display scheduler (components/ContentDisplay.tsx)\<close>

text \<open>
  The component keeps \<open>currentIndex\<close> and \<open>isTransitioning\<close> as state and the handle of
  the duration timer in \<open>timerRef\<close>; \<open>content\<close> is a prop. Timers are modelled by the
  queue of pending timeouts of the event loop and a clock in milliseconds. A callback
  is a closure: it keeps the \<open>content\<close> array of the render that created it.
  \<open>DurationTimer\<close> is the timeout set by \<open>startTimer\<close>, \<open>TransitionTimer\<close> the inner
  timeout of 300 ms (forward for the automatic advance and \<open>nextContent\<close>, backward for
  \<open>previousContent\<close>).
\<close>

datatype direction = Forward | Backward

datatype callback = DurationTimer "Content list" | TransitionTimer direction "Content list"

record timer =
  timer_id :: nat
  due :: nat
  callback :: callback

record display =
  props_content :: "Content list"
  currentIndex :: int
  isTransitioning :: bool
  timerRef :: "nat option"
  has_cleanup :: bool
  clock :: nat
  next_timer_id :: nat
  pending :: "timer list"

text \<open>
  \<open>setTimeout\<close> appends to the queue and returns the handle. The delay is kept by the
  timer as a signed 32-bit integer (in the browser: \<open>to_int32\<close>, wrapping modulo
  \<open>2^32\<close>), and a negative delay counts as zero: a delay above 2147483647 ms does not
  wait that long. (Other runtimes replace a delay outside the range by 1 ms; the
  properties below state a time only for delays inside the range.)
  \<open>clearTimeout\<close> removes the timeout with that handle, if it is still pending.
  Handles are positive, so a stored handle is truthy.
\<close>

definition to_int32 :: "int \<Rightarrow> int" where
  "to_int32 d = (d + 2147483648) mod 4294967296 - 2147483648"

definition timeout_delay :: "int \<Rightarrow> nat" where
  "timeout_delay d = nat (to_int32 d)"

definition setTimeout :: "callback \<Rightarrow> int \<Rightarrow> display \<Rightarrow> nat \<times> display" where
  "setTimeout cb delay s =
     (next_timer_id s,
      s\<lparr>pending := pending s @ [\<lparr>timer_id = next_timer_id s, due = clock s + timeout_delay delay,
                                 callback = cb\<rparr>],
        next_timer_id := Suc (next_timer_id s)\<rparr>)"

definition clearTimeout :: "nat \<Rightarrow> display \<Rightarrow> display" where
  "clearTimeout i s = s\<lparr>pending := filter (\<lambda>t. timer_id t \<noteq> i) (pending s)\<rparr>"

text \<open>\<open>content[currentIndex]\<close>: \<open>undefined\<close> outside the array.\<close>

definition item_at :: "'a list \<Rightarrow> int \<Rightarrow> 'a option" where
  "item_at xs i = (if 0 \<le> i \<and> i < int (length xs) then Some (xs ! nat i) else None)"

definition currentContent :: "display \<Rightarrow> Content option" where
  "currentContent s = item_at (props_content s) (currentIndex s)"

text \<open>\<open>(currentContent?.duration || 10) * 1000\<close>: a missing item and the duration 0 are falsy.\<close>

definition timer_duration :: "Content option \<Rightarrow> int" where
  "timer_duration c =
     (case c of None \<Rightarrow> 10 | Some x \<Rightarrow> (if duration x = 0 then 10 else duration x)) * 1000"

definition clear_timerRef :: "display \<Rightarrow> display" where
  "clear_timerRef s = (case timerRef s of None \<Rightarrow> s | Some i \<Rightarrow> clearTimeout i s)"

definition startTimer :: "display \<Rightarrow> display" where
  "startTimer s =
     (let s1 = clear_timerRef s in
      case setTimeout (DurationTimer (props_content s1)) (timer_duration (currentContent s1)) s1 of
        (i, s2) \<Rightarrow> s2\<lparr>timerRef := Some i\<rparr>)"

text \<open>
  The effect with dependencies \<open>[currentIndex, content, currentContent]\<close>. With an empty
  playlist it returns at once, without a cleanup function. When a dependency changes,
  the cleanup of the previous run (if it returned one) runs first.
\<close>

definition effect :: "display \<Rightarrow> display" where
  "effect s =
     (if length (props_content s) = 0 then s\<lparr>has_cleanup := False\<rparr>
      else (startTimer s)\<lparr>has_cleanup := True\<rparr>)"

definition cleanup :: "display \<Rightarrow> display" where
  "cleanup s = (if has_cleanup s then clear_timerRef s else s)"

definition rerun_effect :: "display \<Rightarrow> display" where
  "rerun_effect s = effect (cleanup s)"

text \<open>
  The two timer callbacks. \<open>%\<close> is the truncating remainder \<open>smod\<close>; the divisor is
  the length of the captured array, which is at least 2 whenever the timeout was set.
  The index always changes here, but the effect is rerun only if it did.
\<close>

definition on_duration_timer :: "Content list \<Rightarrow> display \<Rightarrow> display" where
  "on_duration_timer c s =
     (if length c \<le> 1 then s
      else snd (setTimeout (TransitionTimer Forward c) 300 (s\<lparr>isTransitioning := True\<rparr>)))"

definition on_transition_timer :: "direction \<Rightarrow> Content list \<Rightarrow> display \<Rightarrow> display" where
  "on_transition_timer d c s =
     (let prev = currentIndex s;
          new = (case d of
                   Forward \<Rightarrow> (prev + 1) smod int (length c)
                 | Backward \<Rightarrow> (prev - 1 + int (length c)) smod int (length c));
          s1 = s\<lparr>currentIndex := new, isTransitioning := False\<rparr>
      in if new \<noteq> prev then rerun_effect s1 else s1)"

fun run_callback :: "callback \<Rightarrow> display \<Rightarrow> display" where
  "run_callback (DurationTimer c) s = on_duration_timer c s"
| "run_callback (TransitionTimer d c) s = on_transition_timer d c s"

text \<open>\<open>nextContent\<close>, \<open>previousContent\<close> and \<open>handleVideoEnded\<close>.\<close>

definition nextContent :: "display \<Rightarrow> display" where
  "nextContent s =
     (if length (props_content s) \<le> 1 then s
      else snd (setTimeout (TransitionTimer Forward (props_content s)) 300 (s\<lparr>isTransitioning := True\<rparr>)))"

definition previousContent :: "display \<Rightarrow> display" where
  "previousContent s =
     (if length (props_content s) \<le> 1 then s
      else snd (setTimeout (TransitionTimer Backward (props_content s)) 300 (s\<lparr>isTransitioning := True\<rparr>)))"

definition handleVideoEnded :: "display \<Rightarrow> display" where
  "handleVideoEnded s = nextContent s"

text \<open>
  What is rendered decides which handlers can be called: the two buttons exist when
  there is a current item and more than one item, and are disabled during a transition;
  the video element exists when the current item is a video.
\<close>

definition buttons_enabled :: "display \<Rightarrow> bool" where
  "buttons_enabled s \<longleftrightarrow>
     currentContent s \<noteq> None \<and> length (props_content s) > 1 \<and> \<not> isTransitioning s"

definition video_shown :: "display \<Rightarrow> bool" where
  "video_shown s \<longleftrightarrow>
     (case currentContent s of None \<Rightarrow> False | Some x \<Rightarrow> content_type x = Video)"

text \<open>
  Mounting: the initial state and the first run of the effect. A new value of the prop
  is a new array, so the effect is rerun; nothing else happens.
\<close>

definition mount :: "Content list \<Rightarrow> nat \<Rightarrow> display" where
  "mount c t =
     effect \<lparr>props_content = c, currentIndex = 0, isTransitioning = False, timerRef = None,
       has_cleanup = False, clock = t, next_timer_id = 1, pending = []\<rparr>"

definition set_content :: "Content list \<Rightarrow> display \<Rightarrow> display" where
  "set_content c s = rerun_effect (s\<lparr>props_content := c\<rparr>)"

text \<open>
  The event loop: the pending timeout that is due first (the older one among equals)
  fires at its due time.
\<close>

fun earliest :: "timer list \<Rightarrow> timer option" where
  "earliest [] = None"
| "earliest (t # ts) =
     (case earliest ts of
        None \<Rightarrow> Some t
      | Some t' \<Rightarrow> if due t \<le> due t' then Some t else Some t')"

definition fire_next :: "display \<Rightarrow> display option" where
  "fire_next s =
     (case earliest (pending s) of
        None \<Rightarrow> None
      | Some t \<Rightarrow>
          Some (run_callback (callback t)
                  ((clearTimeout (timer_id t) s)\<lparr>clock := max (clock s) (due t)\<rparr>)))"

text \<open>Time passing without a timeout firing: no further than the next due time.\<close>

definition elapse :: "nat \<Rightarrow> display \<Rightarrow> display" where
  "elapse d s =
     (case earliest (pending s) of
        None \<Rightarrow> s\<lparr>clock := clock s + d\<rparr>
      | Some t \<Rightarrow> s\<lparr>clock := max (clock s) (min (clock s + d) (due t))\<rparr>)"

datatype event =
    TimerFires
  | Elapse nat
  | ClickNext
  | ClickPrevious
  | VideoEnded
  | VideoError
  | NewPlaylist "Content list"

fun apply_event :: "event \<Rightarrow> display \<Rightarrow> display" where
  "apply_event TimerFires s = (case fire_next s of None \<Rightarrow> s | Some s' \<Rightarrow> s')"
| "apply_event (Elapse d) s = elapse d s"
| "apply_event ClickNext s = (if buttons_enabled s then nextContent s else s)"
| "apply_event ClickPrevious s = (if buttons_enabled s then previousContent s else s)"
| "apply_event VideoEnded s = (if video_shown s then handleVideoEnded s else s)"
| "apply_event VideoError s = (if video_shown s then nextContent s else s)"
| "apply_event (NewPlaylist c) s = set_content c s"

fun run_events :: "event list \<Rightarrow> display \<Rightarrow> display" where
  "run_events [] s = s"
| "run_events (e # es) s = run_events es (apply_event e s)"

fun is_NewPlaylist :: "event \<Rightarrow> bool" where
  "is_NewPlaylist (NewPlaylist c) = True"
| "is_NewPlaylist _ = False"

text \<open>\<open>run n\<close>: the next \<open>n\<close> timeouts fire, with nothing else happening in between.\<close>

fun run :: "nat \<Rightarrow> display \<Rightarrow> display" where
  "run 0 s = s"
| "run (Suc n) s = (case fire_next s of None \<Rightarrow> s | Some s' \<Rightarrow> run n s')"

text \<open>
  \<open>showing c i s\<close>: the state right after the effect has started the duration timer for
  item \<open>i\<close> of playlist \<open>c\<close>, with no transition under way and no other timeout pending.
\<close>

definition showing :: "Content list \<Rightarrow> int \<Rightarrow> display \<Rightarrow> bool" where
  "showing c i s \<longleftrightarrow>
     props_content s = c \<and> currentIndex s = i \<and> \<not> isTransitioning s \<and> has_cleanup s
     \<and> (case timerRef s of
           None \<Rightarrow> False
         | Some k \<Rightarrow> pending s = [\<lparr>timer_id = k, due = clock s + timeout_delay (timer_duration (item_at c i)),
                                   callback = DurationTimer c\<rparr>])"

text \<open>The scheduler invariant on a fixed playlist \<open>c\<close>.\<close>

fun captured :: "callback \<Rightarrow> Content list" where
  "captured (DurationTimer c) = c"
| "captured (TransitionTimer d c) = c"

definition index_inv :: "Content list \<Rightarrow> display \<Rightarrow> bool" where
  "index_inv c s \<longleftrightarrow>
     props_content s = c \<and> 0 \<le> currentIndex s \<and> currentIndex s < int (length c)
     \<and> list_all (\<lambda>t. captured (callback t) = c) (pending s)"

section \<open>Change notifications and the debounce (ContentService.subscribeToContentUpdates)\<close>


datatype status = SUBSCRIBED | CHANNEL_ERROR | TIMED_OUT | CLOSED






















section \<open>Device registration (services/deviceService.ts)\<close>

text \<open>
  The remote directory is the table \<open>devices\<close>, keyed by \<open>id\<close>. A request can be made
  to fail: \<open>select_error\<close>, \<open>update_error\<close>, \<open>insert_error\<close> and \<open>rpc_error\<close> hold the
  error with which a request of that kind is answered, if any. \<open>ip_lookup\<close> is the
  answer of the address service, \<open>None\<close> when that request fails.
\<close>

record remote =
  devices :: "string \<Rightarrow> Device option"
  select_error :: "js_error option"
  update_error :: "js_error option"
  insert_error :: "js_error option"
  rpc_error :: "js_error option"
  ip_lookup :: "string option"

text \<open>
  \<open>.select('*').eq('id', i).single()\<close>: no row is the error \<open>PGRST116\<close>.
  \<open>.update(p).eq('id', i).select().single()\<close>: the payload \<open>p\<close> names the columns it
  sets and is applied to the row. \<open>.insert([d]).select().single()\<close>: a row with the
  same key is the error \<open>23505\<close>.
\<close>

definition select_device :: "string \<Rightarrow> remote \<Rightarrow> Device response" where
  "select_device i db =
     (case select_error db of
        Some e \<Rightarrow> Resolves None (Some e)
      | None \<Rightarrow>
          (case devices db i of
             None \<Rightarrow> Resolves None (Some (PostgrestError ''PGRST116''))
           | Some d \<Rightarrow> Resolves (Some d) None))"

definition update_device :: "(Device \<Rightarrow> Device) \<Rightarrow> string \<Rightarrow> remote \<Rightarrow> Device response \<times> remote" where
  "update_device p i db =
     (case update_error db of
        Some e \<Rightarrow> (Resolves None (Some e), db)
      | None \<Rightarrow>
          (case devices db i of
             None \<Rightarrow> (Resolves None (Some (PostgrestError ''PGRST116'')), db)
           | Some d \<Rightarrow> (Resolves (Some (p d)) None, db\<lparr>devices := (devices db)(i \<mapsto> p d)\<rparr>)))"

definition insert_device :: "Device \<Rightarrow> remote \<Rightarrow> Device response \<times> remote" where
  "insert_device d db =
     (case insert_error db of
        Some e \<Rightarrow> (Resolves None (Some e), db)
      | None \<Rightarrow>
          (case devices db (d_id d) of
             Some d' \<Rightarrow> (Resolves None (Some (PostgrestError ''23505'')), db)
           | None \<Rightarrow> (Resolves (Some d) None, db\<lparr>devices := (devices db)(d_id d \<mapsto> d)\<rparr>)))"

text \<open>\<open>getIPAddress\<close>: every error ends in \<open>'Unknown'\<close>.\<close>

definition getIPAddress :: "remote \<Rightarrow> string" where
  "getIPAddress db = (case ip_lookup db of Some ip \<Rightarrow> ip | None \<Rightarrow> ''Unknown'')"

text \<open>\<open>!!device.user_id\<close>: the device has an owner.\<close>

definition has_owner :: "Device \<Rightarrow> bool" where
  "has_owner d = (case user_id d of None \<Rightarrow> False | Some u \<Rightarrow> u \<noteq> [])"

text \<open>
  The two update payloads and the inserted row of \<open>registerDevice\<close>. Only the first
  payload can carry \<open>device_name\<close>, and only for a device without owner. Columns that
  the insert does not name get their default: the current time, or null.
\<close>

definition updateData :: "Device \<Rightarrow> string \<Rightarrow> string \<Rightarrow> string \<Rightarrow> Device \<Rightarrow> Device" where
  "updateData existingDevice deviceCode stamp ip d =
     (let d1 = d\<lparr>device_code := deviceCode, is_online := True, last_seen := stamp,
                 ip_address := Some ip, wifi_ssid := Some ''Connected''\<rparr>
      in if \<not> has_owner existingDevice then d1\<lparr>device_name := ''Pi Display '' @ deviceCode\<rparr>
         else d1)"

definition duplicate_updateData :: "string \<Rightarrow> string \<Rightarrow> string \<Rightarrow> Device \<Rightarrow> Device" where
  "duplicate_updateData deviceCode stamp ip d =
     d\<lparr>device_code := deviceCode, is_online := True, last_seen := stamp,
       ip_address := Some ip, wifi_ssid := Some ''Connected''\<rparr>"

definition new_device :: "string \<Rightarrow> string \<Rightarrow> string \<Rightarrow> string \<Rightarrow> Device" where
  "new_device deviceId deviceCode stamp ip =
     \<lparr>d_id = deviceId, device_code = deviceCode, device_name = ''Pi Display '' @ deviceCode,
      user_id = None, is_online = True, last_seen = stamp, wifi_ssid = Some ''Connected'',
      ip_address = Some ip, mac_address = None, location = None,
      d_created_at = stamp, d_updated_at = stamp\<rparr>"

text \<open>
  The answer of an update or insert as \<open>registerDevice\<close> reads it: an error is thrown,
  the row is returned. (A resolved answer without error and without data does not
  occur with \<open>.single()\<close>; it is read as the error \<open>PGRST116\<close>.)
\<close>

definition row_or_throw :: "Device response \<Rightarrow> js_error + Device" where
  "row_or_throw r =
     (case r of
        Rejects e \<Rightarrow> Inl e
      | Resolves data (Some e) \<Rightarrow> Inl e
      | Resolves None None \<Rightarrow> Inl (PostgrestError ''PGRST116'')
      | Resolves (Some d) None \<Rightarrow> Inr d)"

text \<open>
  \<open>registerDevice\<close> awaits the answer of each request and, before each write, the
  address lookup. The directory has other clients (the application with which the
  owner pairs and names the device), and what they write while the function waits
  between two of its requests is \<open>others\<close>: the write that follows the select is
  applied to \<open>others db\<close>, and so is the update that follows a refused insert.
\<close>

definition registerDevice_existing ::
  "Device \<Rightarrow> string \<Rightarrow> string \<Rightarrow> world \<Rightarrow> remote \<Rightarrow> (js_error + Device) \<times> world \<times> remote" where
  "registerDevice_existing existingDevice deviceId deviceCode w db =
     (case update_device (updateData existingDevice deviceCode (date_iso w) (getIPAddress db)) deviceId db of
        (r, db') \<Rightarrow> (row_or_throw r, w, db'))"

definition registerDevice_new ::
  "(remote \<Rightarrow> remote) \<Rightarrow> string \<Rightarrow> string \<Rightarrow> world \<Rightarrow> remote
     \<Rightarrow> (js_error + Device) \<times> world \<times> remote" where
  "registerDevice_new others deviceId deviceCode w db =
     (case insert_device (new_device deviceId deviceCode (date_iso w) (getIPAddress db)) db of
        (Resolves data (Some (PostgrestError code)), db') \<Rightarrow>
          if code = ''23505''
          then (case update_device
                       (duplicate_updateData deviceCode (date_iso w) (getIPAddress (others db')))
                       deviceId (others db') of
                  (r, db'') \<Rightarrow> (row_or_throw r, w, db''))
          else (Inl (PostgrestError code), w, db')
      | (r, db') \<Rightarrow> (row_or_throw r, w, db'))"

definition registerDevice ::
  "(remote \<Rightarrow> remote) \<Rightarrow> world \<times> remote \<Rightarrow> (js_error + Device) \<times> world \<times> remote" where
  "registerDevice others wr =
     (case wr of (w, db) \<Rightarrow>
      case getDeviceId w of (deviceId, w1) \<Rightarrow>
      case getDeviceCode w1 of (deviceCode, w2) \<Rightarrow>
        (case select_device deviceId db of
           Rejects e \<Rightarrow> (Inl e, w2, db)
         | Resolves (Some existingDevice) checkError \<Rightarrow>
             registerDevice_existing existingDevice deviceId deviceCode w2 (others db)
         | Resolves None checkError \<Rightarrow>
             registerDevice_new others deviceId deviceCode w2 (others db)))"

text \<open>
  \<open>updateDeviceCode\<close> calls the remote procedure \<open>refresh_device_code\<close> with the device
  identifier and the code of the session. The request is part of the result; the reply
  of the procedure is an argument.
\<close>

record rpc_request =
  p_device_id :: string
  p_new_code :: string

record rpc_reply =
  success :: bool
  reply_error :: "string option"

definition updateDeviceCode ::
  "rpc_reply response \<Rightarrow> world \<Rightarrow> (js_error + unit) \<times> rpc_request \<times> world" where
  "updateDeviceCode reply w =
     (case getDeviceId w of (deviceId, w1) \<Rightarrow>
      case getDeviceCode w1 of (deviceCode, w2) \<Rightarrow>
        (let request = \<lparr>p_device_id = deviceId, p_new_code = deviceCode\<rparr> in
         case reply of
           Rejects e \<Rightarrow> (Inl e, request, w2)
         | Resolves data (Some e) \<Rightarrow> (Inl e, request, w2)
         | Resolves None None \<Rightarrow> (Inl (Error ''Failed to update device code''), request, w2)
         | Resolves (Some d) None \<Rightarrow>
             if success d then (Inr (), request, w2)
             else (Inl (Error (case reply_error d of
                                 None \<Rightarrow> ''Failed to update device code''
                               | Some m \<Rightarrow> if m \<noteq> [] then m else ''Failed to update device code'')),
                   request, w2)))"

text \<open>
  Modelled from the spec: the remote procedure \<open>refresh_device_code\<close> is code of the
  directory service and not part of the sources; the specification lists it as
  \<open>setCode(deviceId, code) -> ok|error\<close>. It sets the code of the record with that
  identifier and nothing else; without such a record, or when the request fails, it
  changes nothing and answers with an error.
\<close>

definition refresh_device_code :: "rpc_request \<Rightarrow> remote \<Rightarrow> rpc_reply response \<times> remote" where
  "refresh_device_code request db =
     (case rpc_error db of
        Some e \<Rightarrow> (Resolves None (Some e), db)
      | None \<Rightarrow>
          (case devices db (p_device_id request) of
             None \<Rightarrow> (Resolves (Some \<lparr>success = False, reply_error = Some ''Device not found''\<rparr>) None, db)
           | Some d \<Rightarrow>
               (Resolves (Some \<lparr>success = True, reply_error = None\<rparr>) None,
                db\<lparr>devices := (devices db)(p_device_id request \<mapsto> d\<lparr>device_code := p_new_code request\<rparr>)\<rparr>)))"

text \<open>
  \<open>updateDeviceCode\<close> run against the directory: the request it sends is answered by
  the remote procedure.
\<close>

definition updateDeviceCode_remote :: "world \<times> remote \<Rightarrow> (js_error + unit) \<times> world \<times> remote" where
  "updateDeviceCode_remote wr =
     (case wr of (w, db) \<Rightarrow>
      case getDeviceId w of (deviceId, w1) \<Rightarrow>
      case getDeviceCode w1 of (deviceCode, w2) \<Rightarrow>
      case refresh_device_code \<lparr>p_device_id = deviceId, p_new_code = deviceCode\<rparr> db of (reply, db') \<Rightarrow>
      case updateDeviceCode reply w of (result, request, w3) \<Rightarrow> (result, w3, db'))"

text \<open>
  \<open>generateQRCodeData\<close>: the JSON text is kept as the object it is made from.
\<close>

record qr_payload =
  qr_type :: string
  qr_device_code :: string
  qr_device_id :: string
  qr_timestamp :: int

definition generateQRCodeData :: "world \<Rightarrow> qr_payload \<times> world" where
  "generateQRCodeData w =
     (case getDeviceCode w of (deviceCode, w1) \<Rightarrow>
      case getDeviceId w1 of (deviceId, w2) \<Rightarrow>
        (\<lparr>qr_type = ''pi_board_device'', qr_device_code = deviceCode, qr_device_id = deviceId,
          qr_timestamp = date_now w2\<rparr>, w2))"

section \<open>The pairing screen (components/DevicePairing.tsx)\<close>

text \<open>
  The state of the component. \<open>refreshDeviceCode\<close> is the handler of the interval of
  600000 ms; the effect that sets the interval is rerun whenever \<open>isPaired\<close> changes, so
  the handler sees the current value. What it raises is caught and logged. The third
  component of the result is the request sent to the remote procedure, if any.
\<close>

record pairing_state =
  deviceCode :: string
  qrData :: "qr_payload option"
  isPaired :: bool
  device :: "Device option"
  countdown :: int
  pairing_loading :: bool
  pairing_error :: "string option"

definition DevicePairing_refreshDeviceCode ::
  "rpc_reply response \<Rightarrow> pairing_state \<times> world \<Rightarrow> pairing_state \<times> world \<times> rpc_request option" where
  "DevicePairing_refreshDeviceCode reply pw =
     (case pw of (p, w) \<Rightarrow>
        if \<not> isPaired p then
          (case getDeviceCode w of (code, w1) \<Rightarrow>
           case generateQRCodeData w1 of (qr, w2) \<Rightarrow>
           case updateDeviceCode reply w2 of (result, request, w3) \<Rightarrow>
             (p\<lparr>deviceCode := code, qrData := Some qr, countdown := 600\<rparr>, w3, Some request))
        else (p, w, None))"

text \<open>
  The handler of the button "Refresh Code": \<open>DeviceService.refreshDeviceCode()\<close>, then
  \<open>updateDeviceCode\<close>, then the new QR data and the two state updates.
\<close>

definition DevicePairing_refresh_button ::
  "rpc_reply response \<Rightarrow> pairing_state \<times> world \<Rightarrow> pairing_state \<times> world \<times> rpc_request option" where
  "DevicePairing_refresh_button reply pw =
     (case pw of (p, w) \<Rightarrow>
        (case refreshDeviceCode w of
           (Inl e, w1) \<Rightarrow> (p, w1, None)
         | (Inr code, w1) \<Rightarrow>
             (case updateDeviceCode reply w1 of
                (Inl e, request, w2) \<Rightarrow> (p, w2, Some request)
              | (Inr u, request, w2) \<Rightarrow>
                  (case generateQRCodeData w2 of (qr, w3) \<Rightarrow>
                     (p\<lparr>deviceCode := code, qrData := Some qr\<rparr>, w3, Some request)))))"

section \<open>Auxiliary notions for the proofs\<close>

text \<open>Two states of \<open>localStorage\<close> that agree on availability and on the cache slots.\<close>

definition same_cache :: "storage \<Rightarrow> storage \<Rightarrow> bool" where
  "same_cache s s' \<longleftrightarrow> throws s' = throws s
     \<and> items s' ''cached_content'' = items s ''cached_content''
     \<and> items s' ''cache_timestamp'' = items s ''cache_timestamp''"

text \<open>
  The record of device \<open>i\<close> in the directory has the display name \<open>n\<close> and the owner
  \<open>u\<close>.
\<close>

definition has_name_and_owner :: "remote \<Rightarrow> string \<Rightarrow> string \<Rightarrow> string option \<Rightarrow> bool" where
  "has_name_and_owner db i n u \<longleftrightarrow>
     map_option device_name (devices db i) = Some n \<and> map_option user_id (devices db i) = Some u"

section \<open>Example values\<close>

definition item_X :: Content where
  "item_X = \<lparr> c_id = ''x'', c_user_id = ''owner-1'', title = ''X'', content_type = Text,
      text_content = Some ''hello'', file_url = None, file_name = None, file_size = None,
      duration = 2, c_is_active = True,
      c_created_at = ''2024-01-01T00:00:00.000Z'', c_updated_at = ''2024-01-01T00:00:00.000Z'' \<rparr>"

definition item_Y :: Content where
  "item_Y = item_X\<lparr> c_id := ''y'', title := ''Y'', duration := 3 \<rparr>"

definition item_Z :: Content where
  "item_Z = item_X\<lparr> c_id := ''z'', title := ''Z'', duration := 0 \<rparr>"

definition item_L :: Content where
  "item_L = item_X\<lparr> c_id := ''l'', title := ''L'', duration := 3000000 \<rparr>"


text \<open>
  A device that has an identity, a pairing code for the session and the playlist
  \<open>[item_X]\<close> in its cache, saved at time 0; \<open>world_at t\<close> is that device at time \<open>t\<close>
  (milliseconds).
\<close>

definition world_at :: "int \<Rightarrow> world" where
  "world_at t =
     \<lparr> localStorage = \<lparr> throws = False,
          items = [''device_id'' \<mapsto> Str ''device-1'',
                   ''cached_content'' \<mapsto> Json [item_X],
                   ''cache_timestamp'' \<mapsto> Num 0] \<rparr>,
       sessionStorage = \<lparr> throws = False, items = [''device_code'' \<mapsto> Str ''482913''] \<rparr>,
       date_now = t, date_iso = ''2024-01-01T02:00:00.000Z'',
       math_random = (\<lambda>n. 1 / 2), random_used = 0,
       random_uuid = (\<lambda>n. ''9b2e4c6a1d3f4e5f8a7b0c1d2e3f'' @ toString (1000 + n mod 9000)), uuid_used = 0,
       toString36 = (\<lambda>x. ''0.i'') \<rparr>"


text \<open>An unpaired pairing screen, an empty directory, and a directory with a paired record.\<close>

definition unpaired_screen :: pairing_state where
  "unpaired_screen =
     \<lparr>deviceCode = ''482913'', qrData = None, isPaired = False, device = None, countdown = 1,
      pairing_loading = False, pairing_error = None\<rparr>"

definition empty_directory :: remote where
  "empty_directory =
     \<lparr>devices = Map.empty, select_error = None, update_error = None, insert_error = None,
      rpc_error = None, ip_lookup = Some ''203.0.113.7''\<rparr>"

definition paired_device :: Device where
  "paired_device =
     \<lparr>d_id = ''device-1'', device_code = ''111111'', device_name = ''Lobby screen'',
      user_id = Some ''owner-1'', is_online = False, last_seen = ''2023-12-31T00:00:00.000Z'',
      wifi_ssid = None, ip_address = None, mac_address = None, location = None,
      d_created_at = ''2023-12-01T00:00:00.000Z'', d_updated_at = ''2023-12-31T00:00:00.000Z''\<rparr>"

definition paired_directory :: remote where
  "paired_directory = empty_directory\<lparr>devices := [''device-1'' \<mapsto> paired_device]\<rparr>"

text \<open>
  A directory in which the record of the device has no owner yet, and what the owner's
  application does when it pairs the device and names it.
\<close>

definition unpaired_directory :: remote where
  "unpaired_directory =
     empty_directory\<lparr>devices := [''device-1'' \<mapsto>
       paired_device\<lparr>device_name := ''Pi Display 111111'', user_id := None\<rparr>]\<rparr>"

definition pairing :: "remote \<Rightarrow> remote" where
  "pairing db =
     (case devices db ''device-1'' of
        None \<Rightarrow> db
      | Some d \<Rightarrow> db\<lparr>devices := (devices db)(''device-1'' \<mapsto>
                      d\<lparr>device_name := ''Lobby screen'', user_id := Some ''owner-1''\<rparr>)\<rparr>)"

text \<open>
  The example device in a browser that refuses access to \<open>localStorage\<close>. The first two
  random numbers are 0.25 and 0.75, whose texts in base 36 are \<open>0.9\<close> and \<open>0.r\<close>.
\<close>

definition no_storage_world :: world where
  "no_storage_world =
     (world_at 0)\<lparr>localStorage := \<lparr>throws = True, items = Map.empty\<rparr>,
                  math_random := (\<lambda>n. if n = 0 then 1 / 4 else 3 / 4),
                  toString36 := (\<lambda>x. if x = 1 / 4 then ''0.9'' else ''0.r'')\<rparr>"

section \<open>Properties\<close>

subsection \<open>Evaluation of the decimal text\<close>

lemma toString_small: "n < 10 \<Longrightarrow> toString n = [''0123456789'' ! n]"
  by (simp add: toString.simps)

lemma toString_big:
  "\<not> n < 10 \<Longrightarrow> toString n = toString (n div 10) @ [''0123456789'' ! (n mod 10)]"
  by (subst toString.simps) simp

subsection \<open>Fetching never raises\<close>

text \<open>
  Claim C10. Whatever the remote query does (the promise rejects, or the response
  carries an error, or it carries data), \<open>getDeviceContent\<close> returns a list and raises
  nothing. On every error it returns the empty list, and the whole result (list and
  storage) is the one of a successful query that found no rows: a caller cannot tell
  a failed fetch from a device without content.
\<close>

theorem getDeviceContent_never_raises:
  "(\<exists>fetched. fst (getDeviceContent r w) = Inr fetched)
   \<and> fst (getDeviceContent (Rejects e) w) = Inr []
   \<and> fst (getDeviceContent (Resolves data (Some e)) w) = Inr []
   \<and> getDeviceContent (Rejects e) w = getDeviceContent (Resolves (Some []) None) w
   \<and> getDeviceContent (Resolves data (Some e)) w = getDeviceContent (Resolves (Some []) None) w"
  by (simp add: getDeviceContent_def getDeviceContent_try_def
      split: prod.splits sum.splits response.splits option.splits)

subsection \<open>Frame properties of the identity functions\<close>

lemmas storage_defs = getItem_def setItem_def removeItem_def

lemmas cache_defs = getCachedContent_def getCachedContent_try_def isCacheValid_def cacheContent_def

lemmas fallback_defs = getContentWithFallback_def getContentWithFallback_fetch_def
  getContentWithFallback_catch_def getDeviceContent_def getDeviceContent_try_def

lemmas default_defs = getDefaultContent_def default_welcome_def default_features_def default_pairing_def

lemma getDeviceId_shape:
  "\<exists>d s u k. getDeviceId w = (d, w\<lparr>localStorage := s, random_used := u, uuid_used := k\<rparr>)
      \<and> same_cache (localStorage w) s"
proof (cases "throws (localStorage w)")
  case True
  then have "getDeviceId w = (''fallback-'' @ take 9 (drop 2 (toString36 w (math_random w (random_used w)))),
      w\<lparr>localStorage := localStorage w, random_used := Suc (random_used w), uuid_used := uuid_used w\<rparr>)"
    by (simp add: getDeviceId_def getDeviceId_try_def removeItem_def Math_random_def)
  moreover have "same_cache (localStorage w) (localStorage w)" by (simp add: same_cache_def)
  ultimately show ?thesis by blast
next
  case False
  define s where "s = (localStorage w)\<lparr>items := (items (localStorage w))(''device_code'' := None, ''device_code_timestamp'' := None)\<rparr>"
  have c1: "same_cache (localStorage w) s" by (simp add: same_cache_def s_def)
  show ?thesis
  proof (cases "truthy (items s ''device_id'')")
    case (Some d)
    with False have "getDeviceId w = (d, w\<lparr>localStorage := s, random_used := random_used w, uuid_used := uuid_used w\<rparr>)"
      by (simp add: getDeviceId_def getDeviceId_try_def storage_defs s_def)
    with c1 show ?thesis by blast
  next
    case None
    define s' where "s' = s\<lparr>items := (items s)(''device_id'' \<mapsto> Str (uuid_text (random_uuid w (uuid_used w))))\<rparr>"
    have c2: "same_cache (localStorage w) s'" by (simp add: same_cache_def s_def s'_def)
    from None False have "getDeviceId w = (uuid_text (random_uuid w (uuid_used w)),
        w\<lparr>localStorage := s', random_used := random_used w, uuid_used := Suc (uuid_used w)\<rparr>)"
      by (simp add: getDeviceId_def getDeviceId_try_def storage_defs randomUUID_def s_def s'_def)
    with c2 show ?thesis by blast
  qed
qed

lemma getDeviceId_cache:
  "getCachedContent (snd (getDeviceId w)) = getCachedContent w"
  "isCacheValid (snd (getDeviceId w)) = isCacheValid w"
proof -
  obtain d s u k where "getDeviceId w = (d, w\<lparr>localStorage := s, random_used := u, uuid_used := k\<rparr>)"
    and "same_cache (localStorage w) s"
    using getDeviceId_shape [of w] by blast
  then show "getCachedContent (snd (getDeviceId w)) = getCachedContent w"
    and "isCacheValid (snd (getDeviceId w)) = isCacheValid w"
    by (simp_all add: cache_defs getItem_def same_cache_def split: option.splits item.splits)
qed

lemma generateDeviceCode_frame:
  "localStorage (snd (generateDeviceCode w)) = localStorage w"
  "date_now (snd (generateDeviceCode w)) = date_now w"
  "sessionStorage (snd (generateDeviceCode w)) = sessionStorage w"
  by (simp_all add: generateDeviceCode_def Math_random_def)

lemma getDeviceCode_frame:
  "localStorage (snd (getDeviceCode w)) = localStorage w"
  "date_now (snd (getDeviceCode w)) = date_now w"
  by (simp_all add: getDeviceCode_def getDeviceCode_try_def storage_defs generateDeviceCode_frame
      case_prod_beta split: option.splits sum.splits)

lemma getDefaultContent_cache:
  "getCachedContent (snd (getDefaultContent w)) = getCachedContent w"
  "isCacheValid (snd (getDefaultContent w)) = isCacheValid w"
  by (simp_all add: getDefaultContent_def case_prod_beta cache_defs getItem_def getDeviceCode_frame
      split: option.splits item.splits)

subsection \<open>Content resolution\<close>

lemma is_default_getDefaultContent: "is_default_content (fst (getDefaultContent w))"
  by (simp add: is_default_content_def default_defs split: prod.splits)

lemma not_default_Nil: "\<not> is_default_content []"
  by (simp add: is_default_content_def)

lemma getDeviceContent_success:
  "getDeviceContent_try r = Inr fresh \<Longrightarrow> getDeviceContent r w = (Inr fresh, snd (getDeviceId w))"
  by (simp add: getDeviceContent_def split: prod.splits)






text \<open>
  A failed fetch is resolved exactly like a successful fetch that found no rows.
\<close>

lemma getDeviceContent_failed:
  "getDeviceContent (Rejects e) w = (Inr [], snd (getDeviceId w))"
  "getDeviceContent (Resolves data (Some e)) w = (Inr [], snd (getDeviceId w))"
  "getDeviceContent (Resolves (Some []) None) w = (Inr [], snd (getDeviceId w))"
  by (simp_all add: getDeviceContent_def getDeviceContent_try_def case_prod_beta
      split: option.splits)

lemma failed_fetch_as_empty:
  "getContentWithFallback (Rejects e) w = getContentWithFallback (Resolves (Some []) None) w"
  "getContentWithFallback (Resolves data (Some e)) w = getContentWithFallback (Resolves (Some []) None) w"
proof -
  have "getContentWithFallback_fetch (Rejects e) w = getContentWithFallback_fetch (Resolves (Some []) None) w"
    and "getContentWithFallback_fetch (Resolves data (Some e)) w = getContentWithFallback_fetch (Resolves (Some []) None) w"
    by (simp_all add: getContentWithFallback_fetch_def getDeviceContent_failed)
  then show "getContentWithFallback (Rejects e) w = getContentWithFallback (Resolves (Some []) None) w"
    and "getContentWithFallback (Resolves data (Some e)) w = getContentWithFallback (Resolves (Some []) None) w"
    by (simp_all add: getContentWithFallback_def Let_def)
qed

text \<open>
  Claim C5 on the code. The cache holds \<open>[item_X]\<close>, saved more than an hour ago, and
  the fetch fails (the promise rejects). \<open>getDeviceContent\<close> has already turned the
  failure into the empty list, so the \<open>catch\<close> block of \<open>getContentWithFallback\<close> that
  would serve the expired cache is never entered: the result is the built-in content,
  not the cached playlist.
\<close>

theorem failed_fetch_ignores_stale_cache:
  "getCachedContent (world_at 3600001) = [item_X]
   \<and> \<not> isCacheValid (world_at 3600001)
   \<and> is_default_content (fst (getContentWithFallback (Rejects NetworkError) (world_at 3600001)))
   \<and> fst (getContentWithFallback (Rejects NetworkError) (world_at 3600001)) \<noteq> [item_X]"
proof -
  let ?w = "world_at 3600001"
  have c: "getCachedContent ?w = [item_X]"
    by (simp add: cache_defs storage_defs world_at_def)
  have v: "\<not> isCacheValid ?w"
    by (simp add: cache_defs storage_defs world_at_def)
  have "fst (getContentWithFallback (Rejects NetworkError) ?w)
          = fst (getDefaultContent (snd (getDeviceId ?w)))"
    using v by (simp add: fallback_defs case_prod_beta)
  then have d: "is_default_content (fst (getContentWithFallback (Rejects NetworkError) ?w))"
    by (simp add: is_default_getDefaultContent)
  have "\<not> is_default_content [item_X]"
    by (simp add: is_default_content_def)
  with c v d show ?thesis by auto
qed

subsection \<open>Clearing the cache\<close>

text \<open>
  The subscription callback does clear both cache slots when it is handed an empty
  playlist and the storage is available.
\<close>

lemma subscription_callback_clears_cache:
  assumes "\<not> throws (localStorage w)"
  shows "items (localStorage (snd (snd (subscription_callback [] (h, w))))) ''cached_content'' = None
       \<and> items (localStorage (snd (snd (subscription_callback [] (h, w))))) ''cache_timestamp'' = None"
proof -
  have "localStorage (snd (getDefaultContent w)) = localStorage w"
    by (simp add: getDefaultContent_def case_prod_beta getDeviceCode_frame)
  with assms show ?thesis
    by (simp add: removeItem_def case_prod_beta)
qed

text \<open>
  Claim C6 on the code. The cache holds \<open>[item_X]\<close>, saved one second ago. The initial
  load of a paired device succeeds and finds no rows: \<open>loadContent\<close> shows the built-in
  items but removes neither cache slot, the cache is still valid, and a following
  \<open>getContentWithFallback\<close> returns the old playlist \<open>[item_X]\<close>.
\<close>

theorem loadContent_keeps_cache_on_empty_sync:
  "getCachedContent (world_at 1000) = [item_X]
   \<and> isCacheValid (world_at 1000)
   \<and> is_default_content (content (fst (loadContent (Resolves (Some []) None)
          (initial_subscription_state, world_at 1000))))
   \<and> getCachedContent (snd (loadContent (Resolves (Some []) None)
          (initial_subscription_state, world_at 1000))) = [item_X]
   \<and> isCacheValid (snd (loadContent (Resolves (Some []) None)
          (initial_subscription_state, world_at 1000)))
   \<and> fst (getContentWithFallback (Resolves (Some []) None)
          (snd (loadContent (Resolves (Some []) None)
             (initial_subscription_state, world_at 1000)))) = [item_X]"
proof -
  let ?w = "world_at 1000"
  let ?r = "Resolves (Some []) None :: DeviceContent list response"
  let ?hw = "loadContent ?r (initial_subscription_state, ?w)"
  have c: "getCachedContent ?w = [item_X]"
    by (simp add: cache_defs storage_defs world_at_def)
  have v: "isCacheValid ?w"
    by (simp add: cache_defs storage_defs world_at_def)
  have t: "getDeviceContent_try ?r = Inr []"
    by (simp add: getDeviceContent_try_def)
  have w': "snd ?hw = snd (getDefaultContent (snd (getDeviceId ?w)))"
    by (simp add: loadContent_def getDeviceContent_success [OF t] case_prod_beta)
  have h': "content (fst ?hw) = fst (getDefaultContent (snd (getDeviceId ?w)))"
    by (simp add: loadContent_def getDeviceContent_success [OF t] case_prod_beta)
  have c': "getCachedContent (snd ?hw) = [item_X]"
    by (simp add: w' getDefaultContent_cache getDeviceId_cache c)
  have v': "isCacheValid (snd ?hw)"
    by (simp add: w' getDefaultContent_cache getDeviceId_cache v)
  have "fst (getContentWithFallback ?r (snd ?hw)) = [item_X]"
    using c' v' by (simp add: getContentWithFallback_def)
  with c v c' v' h' show ?thesis
    by (simp add: is_default_getDefaultContent)
qed

subsection \<open>The display scheduler: one cycle of the automatic advance\<close>

lemma timeout_delay_in_range:
  "- 2147483648 \<le> d \<Longrightarrow> d \<le> 2147483647 \<Longrightarrow> timeout_delay d = nat d"
  by (simp add: timeout_delay_def to_int32_def)

lemma timeout_delay_300 [simp]: "timeout_delay 300 = 300"
  by (simp add: timeout_delay_def to_int32_def)

lemma showing_pending:
  assumes "showing c i s"
  obtains k where "timerRef s = Some k"
    and "pending s = [\<lparr>timer_id = k, due = clock s + timeout_delay (timer_duration (item_at c i)), callback = DurationTimer c\<rparr>]"
    and "props_content s = c" and "currentIndex s = i" and "\<not> isTransitioning s" and "has_cleanup s"
  using assms by (auto simp: showing_def split: option.splits)

lemma fire_duration_timer:
  assumes "showing c i s" and "2 \<le> length c"
  shows "fire_next s = Some (s\<lparr>pending := [\<lparr>timer_id = next_timer_id s,
                 due = clock s + timeout_delay (timer_duration (item_at c i)) + 300,
                 callback = TransitionTimer Forward c\<rparr>],
             clock := clock s + timeout_delay (timer_duration (item_at c i)),
             isTransitioning := True,
             next_timer_id := Suc (next_timer_id s)\<rparr>)"
proof -
  from assms(1) obtain k where k: "timerRef s = Some k"
    and p: "pending s = [\<lparr>timer_id = k, due = clock s + timeout_delay (timer_duration (item_at c i)), callback = DurationTimer c\<rparr>]"
    by (rule showing_pending)
  from assms(2) have "\<not> length c \<le> 1" by simp
  then show ?thesis
    by (simp add: fire_next_def p clearTimeout_def on_duration_timer_def setTimeout_def)
qed

lemma fire_single_item:
  assumes "showing c i s" and "length c \<le> 1"
  shows "fire_next s = Some (s\<lparr>pending := [], clock := clock s + timeout_delay (timer_duration (item_at c i))\<rparr>)"
proof -
  from assms(1) obtain k where k: "timerRef s = Some k"
    and p: "pending s = [\<lparr>timer_id = k, due = clock s + timeout_delay (timer_duration (item_at c i)), callback = DurationTimer c\<rparr>]"
    by (rule showing_pending)
  from assms(2) show ?thesis
    by (simp add: fire_next_def p clearTimeout_def on_duration_timer_def)
qed

lemma run_idle: "pending s = [] \<Longrightarrow> run n s = s"
  by (cases n) (simp_all add: fire_next_def)

lemma forward_index:
  fixes i n :: int
  assumes "0 \<le> i" and "i < n"
  shows "(i + 1) smod n = (i + 1) mod n" and "0 \<le> (i + 1) mod n" and "(i + 1) mod n < n"
proof -
  from assms have n: "0 < n" by simp
  from assms show "(i + 1) smod n = (i + 1) mod n"
    by (simp add: signed_modulo_int_def sgn_if abs_if)
  from n show "0 \<le> (i + 1) mod n" by simp
  from n show "(i + 1) mod n < n" by simp
qed

lemma forward_index_changes:
  fixes i n :: int
  assumes "0 \<le> i" and "i < n" and "2 \<le> n"
  shows "(i + 1) mod n \<noteq> i"
proof (cases "i + 1 = n")
  case True
  with assms show ?thesis by simp
next
  case False
  with assms have "i + 1 < n" by simp
  with assms show ?thesis by simp
qed

lemma fire_transition_timer:
  assumes "props_content s = c" and "currentIndex s = i" and "has_cleanup s"
    and "pending s = [\<lparr>timer_id = k, due = t, callback = TransitionTimer Forward c\<rparr>]"
    and "clock s \<le> t" and "0 \<le> i" and "i < int (length c)" and "2 \<le> length c"
  shows "\<exists>s'. fire_next s = Some s' \<and> clock s' = t \<and> showing c ((i + 1) mod int (length c)) s'"
proof -
  let ?j = "(i + 1) mod int (length c)"
  note idx = forward_index [OF assms(6,7)]
  from assms(8) have "2 \<le> int (length c)" by simp
  note ch = forward_index_changes [OF assms(6,7) this]
  from assms(7,6) have ne: "length c \<noteq> 0" by auto
  have "fire_next s = Some (on_transition_timer Forward c (s\<lparr>pending := [], clock := t\<rparr>))"
    using assms(4,5) by (simp add: fire_next_def clearTimeout_def max_def)
  moreover have "showing c ?j (on_transition_timer Forward c (s\<lparr>pending := [], clock := t\<rparr>))"
    using assms(1,2,3) idx ch ne
    by (simp add: on_transition_timer_def Let_def rerun_effect_def cleanup_def clear_timerRef_def
        clearTimeout_def effect_def startTimer_def setTimeout_def showing_def currentContent_def
        split: option.splits)
  moreover have "clock (on_transition_timer Forward c (s\<lparr>pending := [], clock := t\<rparr>)) = t"
    using assms(1,2,3) idx ch ne
    by (simp add: on_transition_timer_def Let_def rerun_effect_def cleanup_def clear_timerRef_def
        clearTimeout_def effect_def startTimer_def setTimeout_def
        split: option.splits)
  ultimately show ?thesis by simp
qed


lemma mount_showing: "c \<noteq> [] \<Longrightarrow> showing c 0 (mount c t) \<and> clock (mount c t) = t"
  by (simp add: mount_def effect_def startTimer_def clear_timerRef_def setTimeout_def showing_def
      currentContent_def)

text \<open>
  Claim C9, as the code has it. Let the scheduler be showing item \<open>i\<close> of playlist
  \<open>c\<close>: the effect has just started the duration timer and nothing else is pending.
  Let \<open>ms\<close> be the delay the effect asks for: the \<open>duration\<close> of the item times 1000,
  or 10000 when the duration is 0 (which is how the code reads a missing duration).
  If \<open>c\<close> has at least two items, the first timeout fires after \<open>ms\<close> milliseconds
  whenever \<open>ms\<close> is in the signed 32-bit range that the timer keeps; it sets
  \<open>isTransitioning\<close> and leaves the index. The second fires 300 ms later, sets
  the index to \<open>(i + 1) mod length c\<close>, clears \<open>isTransitioning\<close> and leaves the
  scheduler showing the next item. If \<open>c\<close> has exactly one item, then however many
  timeouts fire, the index and \<open>isTransitioning\<close> never change.
\<close>

theorem auto_advance_sequence:
  assumes "showing c i s" and "0 \<le> i" and "i < int (length c)"
  shows "(2 \<le> length c \<longrightarrow>
            (- 2147483648 \<le> (if duration (c ! nat i) = 0 then 10 else duration (c ! nat i)) * 1000
               \<and> (if duration (c ! nat i) = 0 then 10 else duration (c ! nat i)) * 1000 \<le> 2147483647
              \<longrightarrow> clock (run 1 s) = clock s
                    + nat ((if duration (c ! nat i) = 0 then 10 else duration (c ! nat i)) * 1000))
          \<and> isTransitioning (run 1 s) \<and> currentIndex (run 1 s) = i
          \<and> clock (run 2 s) = clock (run 1 s) + 300
          \<and> currentIndex (run 2 s) = (i + 1) mod int (length c)
          \<and> \<not> isTransitioning (run 2 s)
          \<and> showing c ((i + 1) mod int (length c)) (run 2 s))
       \<and> (length c = 1 \<longrightarrow> currentIndex (run n s) = i \<and> \<not> isTransitioning (run n s))"
proof (intro conjI impI)
  assume len: "length c = 1"
  from assms(1) have here: "currentIndex s = i" "\<not> isTransitioning s"
    by (auto elim: showing_pending)
  have "currentIndex (run n s) = i \<and> \<not> isTransitioning (run n s)"
  proof (cases n)
    case 0
    with here show ?thesis by simp
  next
    case (Suc m)
    let ?s' = "s\<lparr>pending := [], clock := clock s + timeout_delay (timer_duration (item_at c i))\<rparr>"
    from len have "fire_next s = Some ?s'"
      using fire_single_item [OF assms(1)] by simp
    then have "run n s = run m ?s'" by (simp add: Suc)
    also have "\<dots> = ?s'" by (rule run_idle) simp
    finally show ?thesis using here by simp
  qed
  then show "currentIndex (run n s) = i" and "\<not> isTransitioning (run n s)" by simp_all
next
  assume len: "2 \<le> length c"
  let ?ms = "(if duration (c ! nat i) = 0 then 10 else duration (c ! nat i)) * 1000"
  let ?d = "timeout_delay (timer_duration (item_at c i))"
  let ?s1 = "s\<lparr>pending := [\<lparr>timer_id = next_timer_id s, due = clock s + ?d + 300,
                 callback = TransitionTimer Forward c\<rparr>],
             clock := clock s + ?d, isTransitioning := True,
             next_timer_id := Suc (next_timer_id s)\<rparr>"
  have f1: "fire_next s = Some ?s1" by (rule fire_duration_timer [OF assms(1) len])
  then have r1: "run 1 s = ?s1" by simp
  from assms(1) have here: "props_content s = c" "currentIndex s = i" "has_cleanup s"
    by (auto elim: showing_pending)
  obtain s2 where f2: "fire_next ?s1 = Some s2" and c2: "clock s2 = clock s + ?d + 300"
    and sh2: "showing c ((i + 1) mod int (length c)) s2"
    using fire_transition_timer [of ?s1 c i "next_timer_id s" "clock s + ?d + 300"] here assms(2,3) len
    by auto
  have r2: "run 2 s = s2"
    using f1 f2 by (simp add: numeral_2_eq_2)
  have d: "?d = timeout_delay ?ms"
    using assms(2,3) by (simp add: timer_duration_def item_at_def)
  have at: "clock (run 1 s) = clock s + timeout_delay ?ms"
    by (simp only: r1 d [symmetric]) simp
  show "clock (run 1 s) = clock s + nat ?ms"
    if "- 2147483648 \<le> ?ms \<and> ?ms \<le> 2147483647"
    using that at by (simp only: timeout_delay_in_range)
  show "isTransitioning (run 1 s)" by (simp only: r1) simp
  show "currentIndex (run 1 s) = i" using here by (simp only: r1) simp
  show "clock (run 2 s) = clock (run 1 s) + 300" by (simp only: r1 r2 c2) simp
  show "showing c ((i + 1) mod int (length c)) (run 2 s)" by (simp only: r2 sh2)
  from sh2 show "currentIndex (run 2 s) = (i + 1) mod int (length c)"
    by (simp only: r2) (auto elim: showing_pending)
  from sh2 show "\<not> isTransitioning (run 2 s)"
    by (simp only: r2) (auto elim: showing_pending)
qed

text \<open>
  A witness for C9: the playlist \<open>[item_X, item_Y]\<close> (2 s and 3 s) mounted at time 0
  asks for 2000 ms, which is in range, starts the transition at 2000 ms and shows item 1
  at 2300 ms; the single-item playlist \<open>[item_X]\<close> still shows item 0 after seven
  rounds of the event loop.
\<close>

theorem auto_advance_sequence_witness:
  "showing [item_X, item_Y] 0 (mount [item_X, item_Y] 0)
   \<and> (2::nat) \<le> length [item_X, item_Y]
   \<and> (- 2147483648::int) \<le> (if duration ([item_X, item_Y] ! nat 0) = 0 then 10
          else duration ([item_X, item_Y] ! nat 0)) * 1000
   \<and> (if duration ([item_X, item_Y] ! nat 0) = 0 then 10
          else duration ([item_X, item_Y] ! nat 0)) * 1000 \<le> (2147483647::int)
   \<and> clock (run 1 (mount [item_X, item_Y] 0)) = 2000
   \<and> isTransitioning (run 1 (mount [item_X, item_Y] 0))
   \<and> clock (run 2 (mount [item_X, item_Y] 0)) = 2300
   \<and> currentIndex (run 2 (mount [item_X, item_Y] 0)) = 1
   \<and> showing [item_X, item_Y] 1 (run 2 (mount [item_X, item_Y] 0))
   \<and> showing [item_X] 0 (mount [item_X] 0)
   \<and> length [item_X] = 1
   \<and> currentIndex (run 7 (mount [item_X] 0)) = 0
   \<and> \<not> isTransitioning (run 7 (mount [item_X] 0))"
proof -
  have a: "showing [item_X, item_Y] 0 (mount [item_X, item_Y] 0)"
    and a0: "clock (mount [item_X, item_Y] 0) = 0"
    using mount_showing [of "[item_X, item_Y]" 0] by simp_all
  have b: "showing [item_X] 0 (mount [item_X] 0)"
    using mount_showing [of "[item_X]" 0] by simp
  have d: "duration item_X = 2" by (simp add: item_X_def)
  show ?thesis
    using a b a0 d auto_advance_sequence [OF a, of 0] auto_advance_sequence [OF b, of 7] by simp
qed

text \<open>
  Claim C9 as stated fails for a duration whose milliseconds do not fit the timer. The
  item \<open>item_L\<close> has a duration of 3000000 seconds; \<open>3000000000\<close> ms wraps to a negative
  32-bit delay, so the timeout set for it at time 0 is due at once: the transition
  starts, and item 1 is shown, within the first second and not after 3000000 seconds.
\<close>

theorem auto_advance_sequence_counterexample:
  "showing [item_L, item_Y] 0 (mount [item_L, item_Y] 0)
   \<and> duration ([item_L, item_Y] ! nat 0) = 3000000
   \<and> clock (run 1 (mount [item_L, item_Y] 0))
        \<noteq> clock (mount [item_L, item_Y] 0) + nat (duration ([item_L, item_Y] ! nat 0) * 1000)
   \<and> isTransitioning (run 1 (mount [item_L, item_Y] 0))
   \<and> clock (run 1 (mount [item_L, item_Y] 0)) < 1000
   \<and> currentIndex (run 2 (mount [item_L, item_Y] 0)) = 1
   \<and> clock (run 2 (mount [item_L, item_Y] 0)) < 1000"
proof -
  have a: "showing [item_L, item_Y] 0 (mount [item_L, item_Y] 0)"
    and a0: "clock (mount [item_L, item_Y] 0) = 0"
    using mount_showing [of "[item_L, item_Y]" 0] by simp_all
  have d: "duration item_L = 3000000" by (simp add: item_L_def item_X_def)
  have t: "timeout_delay (timer_duration (item_at [item_L, item_Y] 0)) = 0"
    by (simp add: timer_duration_def item_at_def d timeout_delay_def to_int32_def)
  have f1: "fire_next (mount [item_L, item_Y] 0) =
      Some ((mount [item_L, item_Y] 0)\<lparr>pending := [\<lparr>timer_id = next_timer_id (mount [item_L, item_Y] 0),
                 due = 300, callback = TransitionTimer Forward [item_L, item_Y]\<rparr>],
             clock := 0, isTransitioning := True,
             next_timer_id := Suc (next_timer_id (mount [item_L, item_Y] 0))\<rparr>)"
    using fire_duration_timer [OF a] by (simp add: t a0)
  let ?s1 = "(mount [item_L, item_Y] 0)\<lparr>pending := [\<lparr>timer_id = next_timer_id (mount [item_L, item_Y] 0),
                 due = 300, callback = TransitionTimer Forward [item_L, item_Y]\<rparr>],
             clock := 0, isTransitioning := True,
             next_timer_id := Suc (next_timer_id (mount [item_L, item_Y] 0))\<rparr>"
  from a have here: "props_content (mount [item_L, item_Y] 0) = [item_L, item_Y]"
    "currentIndex (mount [item_L, item_Y] 0) = 0" "has_cleanup (mount [item_L, item_Y] 0)"
    by (auto elim: showing_pending)
  obtain s2 where f2: "fire_next ?s1 = Some s2" and c2: "clock s2 = 300"
    and sh2: "showing [item_L, item_Y] ((0 + 1) mod int (length [item_L, item_Y])) s2"
    using fire_transition_timer [of ?s1 "[item_L, item_Y]" 0 "next_timer_id (mount [item_L, item_Y] 0)" 300] here
    by auto
  from sh2 have i2: "currentIndex s2 = 1" by (auto elim: showing_pending)
  have r1: "run 1 (mount [item_L, item_Y] 0) = ?s1" using f1 by simp
  have r2: "run 2 (mount [item_L, item_Y] 0) = s2" using f1 f2 by (simp add: numeral_2_eq_2)
  show ?thesis
    using a d a0 c2 i2 by (simp only: r1 r2) simp
qed

subsection \<open>The display scheduler: the index stays inside a fixed playlist\<close>

lemma earliest_in_set: "earliest ts = Some t \<Longrightarrow> t \<in> set ts"
  by (induction ts arbitrary: t) (auto split: option.splits if_splits)

lemma index_inv_clearTimeout: "index_inv c s \<Longrightarrow> index_inv c (clearTimeout k s)"
  by (simp add: index_inv_def clearTimeout_def list_all_iff)

lemma index_inv_clock: "index_inv c s \<Longrightarrow> index_inv c (s\<lparr>clock := t\<rparr>)"
  by (simp add: index_inv_def)

lemma index_inv_setTimeout:
  "index_inv c s \<Longrightarrow> captured cb = c \<Longrightarrow> index_inv c (snd (setTimeout cb d s))"
  by (simp add: index_inv_def setTimeout_def)

lemma index_inv_transitioning: "index_inv c s \<Longrightarrow> index_inv c (s\<lparr>isTransitioning := b\<rparr>)"
  by (simp add: index_inv_def)

lemma index_inv_clear_timerRef: "index_inv c s \<Longrightarrow> index_inv c (clear_timerRef s)"
  by (simp add: clear_timerRef_def index_inv_clearTimeout split: option.splits)

lemma index_inv_startTimer: "index_inv c s \<Longrightarrow> index_inv c (startTimer s)"
proof -
  assume a: "index_inv c s"
  then have b: "index_inv c (clear_timerRef s)" by (rule index_inv_clear_timerRef)
  then have p: "props_content (clear_timerRef s) = c" by (simp add: index_inv_def)
  from b show ?thesis
    by (simp add: startTimer_def Let_def setTimeout_def p index_inv_def)
qed

lemma index_inv_rerun_effect: "index_inv c s \<Longrightarrow> index_inv c (rerun_effect s)"
proof -
  assume a: "index_inv c s"
  then have b: "index_inv c (cleanup s)"
    by (simp add: cleanup_def index_inv_clear_timerRef)
  then have "index_inv c (startTimer (cleanup s))" by (rule index_inv_startTimer)
  moreover from b have "length (props_content (cleanup s)) \<noteq> 0"
    by (auto simp: index_inv_def)
  ultimately show ?thesis
    by (simp add: rerun_effect_def effect_def index_inv_def)
qed

lemma index_inv_nextContent: "index_inv c s \<Longrightarrow> index_inv c (nextContent s)"
  by (simp add: nextContent_def index_inv_def setTimeout_def)

lemma index_inv_previousContent: "index_inv c s \<Longrightarrow> index_inv c (previousContent s)"
  by (simp add: previousContent_def index_inv_def setTimeout_def)

lemma index_inv_on_duration_timer: "index_inv c s \<Longrightarrow> index_inv c (on_duration_timer c s)"
  by (simp add: on_duration_timer_def index_inv_def setTimeout_def)

lemma smod_in_range:
  fixes a n :: int
  assumes "0 \<le> a" and "0 < n"
  shows "0 \<le> a smod n \<and> a smod n < n"
  using assms by (simp add: signed_modulo_int_def sgn_if abs_if)

lemma index_inv_on_transition_timer:
  assumes "index_inv c s" and "c \<noteq> []"
  shows "index_inv c (on_transition_timer d c s)"
proof -
  let ?n = "int (length c)"
  let ?new = "case d of Forward \<Rightarrow> (currentIndex s + 1) smod ?n
                | Backward \<Rightarrow> (currentIndex s - 1 + ?n) smod ?n"
  from assms have n: "0 < ?n" and i: "0 \<le> currentIndex s" by (simp_all add: index_inv_def)
  have new: "0 \<le> ?new \<and> ?new < ?n"
  proof (cases d)
    case Forward
    with smod_in_range [of "currentIndex s + 1" ?n] i n show ?thesis by simp
  next
    case Backward
    with smod_in_range [of "currentIndex s - 1 + ?n" ?n] i n show ?thesis by simp
  qed
  with assms(1) have s1: "index_inv c (s\<lparr>currentIndex := ?new, isTransitioning := False\<rparr>)"
    by (simp add: index_inv_def)
  then have "index_inv c (rerun_effect (s\<lparr>currentIndex := ?new, isTransitioning := False\<rparr>))"
    by (rule index_inv_rerun_effect)
  with s1 index_inv_transitioning [OF assms(1), of False] show ?thesis
    by (simp add: on_transition_timer_def Let_def)
qed

lemma index_inv_fire_next:
  assumes "index_inv c s" and "c \<noteq> []" and "fire_next s = Some s'"
  shows "index_inv c s'"
proof -
  from assms(3) obtain t where t: "earliest (pending s) = Some t"
    and s': "s' = run_callback (callback t) ((clearTimeout (timer_id t) s)\<lparr>clock := max (clock s) (due t)\<rparr>)"
    by (auto simp: fire_next_def split: option.splits)
  let ?s0 = "(clearTimeout (timer_id t) s)\<lparr>clock := max (clock s) (due t)\<rparr>"
  have s0: "index_inv c ?s0"
    using assms(1) by (simp add: index_inv_clearTimeout index_inv_clock)
  from t have "t \<in> set (pending s)" by (rule earliest_in_set)
  with assms(1) have cap: "captured (callback t) = c"
    by (simp add: index_inv_def list_all_iff)
  show ?thesis
  proof (cases "callback t")
    case (DurationTimer c')
    with cap have "c' = c" by simp
    with DurationTimer s0 show ?thesis
      by (simp add: s' index_inv_on_duration_timer)
  next
    case (TransitionTimer d c')
    with cap have "c' = c" by simp
    with TransitionTimer s0 assms(2) show ?thesis
      by (simp add: s' index_inv_on_transition_timer)
  qed
qed

lemma index_inv_apply_event:
  assumes "index_inv c s" and "c \<noteq> []" and "\<not> is_NewPlaylist e"
  shows "index_inv c (apply_event e s)"
proof (cases e)
  case TimerFires
  with assms show ?thesis
    by (auto simp: index_inv_fire_next split: option.splits)
next
  case (Elapse d)
  with assms(1) show ?thesis
    by (simp add: elapse_def index_inv_def split: option.splits)
next
  case ClickNext
  with assms(1) show ?thesis by (simp add: index_inv_nextContent)
next
  case ClickPrevious
  with assms(1) show ?thesis by (simp add: index_inv_previousContent)
next
  case VideoEnded
  with assms(1) show ?thesis by (simp add: handleVideoEnded_def index_inv_nextContent)
next
  case VideoError
  with assms(1) show ?thesis by (simp add: index_inv_nextContent)
next
  case (NewPlaylist c')
  with assms(3) show ?thesis by simp
qed

lemma index_inv_run_events:
  "index_inv c s \<Longrightarrow> c \<noteq> [] \<Longrightarrow> list_all (\<lambda>e. \<not> is_NewPlaylist e) es
     \<Longrightarrow> index_inv c (run_events es s)"
  by (induction es arbitrary: s) (simp_all add: index_inv_apply_event)

lemma index_inv_mount: "c \<noteq> [] \<Longrightarrow> index_inv c (mount c t)"
  by (simp add: mount_def effect_def startTimer_def clear_timerRef_def setTimeout_def index_inv_def)

lemma set_content_index:
  "currentIndex (set_content c s) = currentIndex s"
  "props_content (set_content c s) = c"
  "isTransitioning (set_content c s) = isTransitioning s"
  by (simp_all add: set_content_def rerun_effect_def effect_def cleanup_def startTimer_def
      clear_timerRef_def clearTimeout_def setTimeout_def Let_def split: option.splits)

lemmas display_defs = mount_def effect_def startTimer_def clear_timerRef_def setTimeout_def
  clearTimeout_def fire_next_def on_duration_timer_def on_transition_timer_def rerun_effect_def
  cleanup_def set_content_def currentContent_def item_at_def timer_duration_def
  timeout_delay_def to_int32_def

lemma two_items_after_first_advance:
  "run_events [TimerFires, TimerFires] (mount [item_X, item_Y] 0) =
     \<lparr>props_content = [item_X, item_Y], currentIndex = 1, isTransitioning = False,
      timerRef = Some 3, has_cleanup = True, clock = 2300, next_timer_id = 4,
      pending = [\<lparr>timer_id = 3, due = 5300, callback = DurationTimer [item_X, item_Y]\<rparr>]\<rparr>"
  by (simp add: display_defs item_X_def item_Y_def signed_modulo_int_def)

text \<open>
  Claim C4, as the code has it. From mounting a non-empty playlist \<open>c\<close>, every sequence
  of timeouts firing, time passing, clicks on the two buttons and video events, with no
  replacement of the playlist among them, leads to a state with
  \<open>0 \<le> currentIndex < length c\<close>. A replacement of the playlist installs the new
  array and leaves \<open>currentIndex\<close> as it is.
\<close>

theorem index_in_range_on_fixed_playlist:
  assumes "c \<noteq> []" and "list_all (\<lambda>e. \<not> is_NewPlaylist e) es"
  shows "props_content (run_events es (mount c t)) = c
       \<and> 0 \<le> currentIndex (run_events es (mount c t))
       \<and> currentIndex (run_events es (mount c t)) < int (length c)
       \<and> currentIndex (apply_event (NewPlaylist c') (run_events es (mount c t)))
           = currentIndex (run_events es (mount c t))
       \<and> props_content (apply_event (NewPlaylist c') (run_events es (mount c t))) = c'"
proof -
  have "index_inv c (run_events es (mount c t))"
    using index_inv_mount [OF assms(1)] assms by (rule index_inv_run_events)
  then show ?thesis
    by (simp add: index_inv_def set_content_index)
qed

text \<open>
  A witness for C4: two items, and the events timeout, click on next (ignored, a
  transition is under way), 100 ms passing, timeout, timeout.
\<close>

theorem index_in_range_on_fixed_playlist_witness:
  "[item_X, item_Y] \<noteq> []
   \<and> list_all (\<lambda>e. \<not> is_NewPlaylist e) [TimerFires, ClickNext, Elapse 100, TimerFires, TimerFires]
   \<and> 0 \<le> currentIndex (run_events [TimerFires, ClickNext, Elapse 100, TimerFires, TimerFires]
        (mount [item_X, item_Y] 0))
   \<and> currentIndex (run_events [TimerFires, ClickNext, Elapse 100, TimerFires, TimerFires]
        (mount [item_X, item_Y] 0)) < 2"
  using index_in_range_on_fixed_playlist [of "[item_X, item_Y]" "[TimerFires, ClickNext, Elapse 100, TimerFires, TimerFires]" 0 "[]"]
  by simp

text \<open>
  Claim C4 as stated fails for playlist replacement. The playlist \<open>[item_X, item_Y]\<close>
  has advanced to index 1, inside the playlist, when it is replaced by the one-item
  playlist \<open>[item_Z]\<close>: afterwards the playlist is not empty and \<open>currentIndex = 1\<close> is
  not below its length.
\<close>

theorem index_in_range_counterexample:
  "props_content (run_events [TimerFires, TimerFires] (mount [item_X, item_Y] 0)) = [item_X, item_Y]
   \<and> currentIndex (run_events [TimerFires, TimerFires] (mount [item_X, item_Y] 0)) = 1
   \<and> props_content (run_events [TimerFires, TimerFires, NewPlaylist [item_Z]]
      (mount [item_X, item_Y] 0)) = [item_Z]
   \<and> currentIndex (run_events [TimerFires, TimerFires, NewPlaylist [item_Z]]
      (mount [item_X, item_Y] 0)) = 1
   \<and> \<not> currentIndex (run_events [TimerFires, TimerFires, NewPlaylist [item_Z]]
        (mount [item_X, item_Y] 0))
      < int (length (props_content (run_events [TimerFires, TimerFires, NewPlaylist [item_Z]]
        (mount [item_X, item_Y] 0))))"
proof -
  have "run_events [TimerFires, TimerFires, NewPlaylist [item_Z]] (mount [item_X, item_Y] 0)
      = set_content [item_Z] (run_events [TimerFires, TimerFires] (mount [item_X, item_Y] 0))"
    by simp
  then show ?thesis
    by (simp only: two_items_after_first_advance set_content_index) simp
qed

subsection \<open>The display scheduler: a new playlist\<close>



subsection \<open>Debounced refresh\<close>

text \<open>
  The timeouts that run when time advances: only the refreshes among them fetch, and
  none of them touches the pending timeouts, the answers of the repository or the
  debounce variable of a channel that exists.
\<close>

lemma timeout_delay_500 [simp]: "timeout_delay 500 = 500"
  by (simp add: timeout_delay_def to_int32_def)

lemma timeout_delay_5000 [simp]: "timeout_delay 5000 = 5000"
  by (simp add: timeout_delay_def to_int32_def)






























text \<open>
  The body of the debounce timer is one pull through \<open>getDeviceContent\<close>, whose items
  go to the callback of the hook.
\<close>

lemma refresh_and_callback_pulls:
  "\<exists>items w'. getDeviceContent r w = (Inr items, w')
     \<and> refresh_and_callback r (h, w) = snd (subscription_callback items (h, w'))"
  by (simp add: refresh_and_callback_def getDeviceContent_def split: prod.splits sum.splits)










subsection \<open>The pairing code of the session\<close>

lemma getDeviceCode_session:
  assumes "\<not> throws (sessionStorage w)"
    and "items (sessionStorage w) ''device_code'' = Some (Str c)" and "c \<noteq> []"
  shows "getDeviceCode w = (c, w)"
  using assms by (simp add: getDeviceCode_def getDeviceCode_try_def getItem_def truthy_def)

lemma getDeviceId_stored:
  assumes "\<not> throws (localStorage w)"
    and "items (localStorage w) ''device_id'' = Some (Str i)" and "i \<noteq> []"
  shows "fst (getDeviceId w) = i"
    and "random_used (snd (getDeviceId w)) = random_used w"
    and "sessionStorage (snd (getDeviceId w)) = sessionStorage w"
    and "\<not> throws (localStorage (snd (getDeviceId w)))"
    and "items (localStorage (snd (getDeviceId w))) ''device_id'' = Some (Str i)"
  using assms
  by (simp_all add: getDeviceId_def getDeviceId_try_def storage_defs truthy_def)

text \<open>Once the screen knows the device as paired, the interval handler does nothing.\<close>

lemma paired_no_rotation:
  "isPaired p \<Longrightarrow> DevicePairing_refreshDeviceCode reply (p, w) = (p, w, None)"
  by (simp add: DevicePairing_refreshDeviceCode_def)

text \<open>
  While the session holds a pairing code, the interval handler of an unpaired screen
  shows and sends that code, whatever the remote procedure replies.
\<close>

lemma getDeviceId_keeps_session:
  "sessionStorage (snd (getDeviceId w)) = sessionStorage w"
proof -
  obtain d s u k where "getDeviceId w = (d, w\<lparr>localStorage := s, random_used := u, uuid_used := k\<rparr>)"
    using getDeviceId_shape [of w] by blast
  then show ?thesis by simp
qed

lemma interval_refresh_keeps_code:
  assumes "\<not> isPaired p" and "\<not> throws (sessionStorage w)"
    and "items (sessionStorage w) ''device_code'' = Some (Str c)" and "c \<noteq> []"
  shows "deviceCode (fst (DevicePairing_refreshDeviceCode reply (p, w))) = c"
    and "map_option p_new_code (snd (snd (DevicePairing_refreshDeviceCode reply (p, w)))) = Some c"
proof -
  have c0: "getDeviceCode w = (c, w)"
    using assms(2-4) by (rule getDeviceCode_session)
  let ?w1 = "snd (getDeviceId w)"
  let ?w2 = "snd (getDeviceId ?w1)"
  have q: "snd (generateQRCodeData w) = ?w1"
    by (simp add: generateQRCodeData_def c0 case_prod_beta)
  have "sessionStorage ?w2 = sessionStorage w"
    by (simp add: getDeviceId_keeps_session)
  with assms(2-4) have c2: "getDeviceCode ?w2 = (c, ?w2)"
    by (intro getDeviceCode_session) simp_all
  have u: "p_new_code (fst (snd (updateDeviceCode reply ?w1))) = c"
    by (simp add: updateDeviceCode_def c2 case_prod_beta Let_def
        split: response.splits option.splits)
  from assms(1) show "deviceCode (fst (DevicePairing_refreshDeviceCode reply (p, w))) = c"
    by (simp add: DevicePairing_refreshDeviceCode_def c0 case_prod_beta)
  from assms(1) u show "map_option p_new_code (snd (snd (DevicePairing_refreshDeviceCode reply (p, w)))) = Some c"
    by (simp add: DevicePairing_refreshDeviceCode_def c0 q case_prod_beta)
qed

text \<open>
  Claim C2 on the code. The device is unpaired and the session holds the code
  \<open>482913\<close>. When the interval of 600000 ms fires, \<open>refreshDeviceCode\<close> of the pairing
  screen reads the code with \<open>getDeviceCode\<close>, which returns the code of the session:
  the code shown is the old one, the remote procedure is called with the old code, and
  \<open>Math.random\<close> has not been called, so no code has been generated.
\<close>

theorem interval_refresh_keeps_session_code:
  "\<not> isPaired unpaired_screen
   \<and> fst (getDeviceCode (world_at 600000)) = ''482913''
   \<and> deviceCode (fst (DevicePairing_refreshDeviceCode
         (Resolves (Some \<lparr>success = True, reply_error = None\<rparr>) None)
         (unpaired_screen, world_at 600000))) = ''482913''
   \<and> map_option p_new_code (snd (snd (DevicePairing_refreshDeviceCode
         (Resolves (Some \<lparr>success = True, reply_error = None\<rparr>) None)
         (unpaired_screen, world_at 600000)))) = Some ''482913''
   \<and> random_used (fst (snd (DevicePairing_refreshDeviceCode
         (Resolves (Some \<lparr>success = True, reply_error = None\<rparr>) None)
         (unpaired_screen, world_at 600000)))) = random_used (world_at 600000)"
proof -
  let ?w = "world_at 600000"
  have s: "\<not> throws (sessionStorage ?w)" "items (sessionStorage ?w) ''device_code'' = Some (Str ''482913'')"
    by (simp_all add: world_at_def)
  have l: "\<not> throws (localStorage ?w)" "items (localStorage ?w) ''device_id'' = Some (Str ''device-1'')"
    by (simp_all add: world_at_def)
  have c: "getDeviceCode ?w = (''482913'', ?w)"
    using s by (simp add: getDeviceCode_session)
  let ?w1 = "snd (getDeviceId ?w)"
  have i1: "\<not> throws (localStorage ?w1)" "items (localStorage ?w1) ''device_id'' = Some (Str ''device-1'')"
     "sessionStorage ?w1 = sessionStorage ?w" "random_used ?w1 = random_used ?w"
    using getDeviceId_stored [OF l] by simp_all
  have c1: "getDeviceCode ?w1 = (''482913'', ?w1)"
    using s i1 by (simp add: getDeviceCode_session)
  have q: "generateQRCodeData ?w = (\<lparr>qr_type = ''pi_board_device'', qr_device_code = ''482913'',
       qr_device_id = fst (getDeviceId ?w), qr_timestamp = date_now ?w1\<rparr>, ?w1)"
    by (simp add: generateQRCodeData_def c case_prod_beta)
  let ?w2 = "snd (getDeviceId ?w1)"
  have i2: "sessionStorage ?w2 = sessionStorage ?w" "random_used ?w2 = random_used ?w"
    using getDeviceId_stored [OF i1(1,2)] i1 by simp_all
  have c2: "getDeviceCode ?w2 = (''482913'', ?w2)"
    using s i2 by (simp add: getDeviceCode_session)
  have u: "updateDeviceCode (Resolves (Some \<lparr>success = True, reply_error = None\<rparr>) None) ?w1
      = (Inr (), \<lparr>p_device_id = fst (getDeviceId ?w1), p_new_code = ''482913''\<rparr>, ?w2)"
    by (simp add: updateDeviceCode_def c2 case_prod_beta)
  have r: "DevicePairing_refreshDeviceCode (Resolves (Some \<lparr>success = True, reply_error = None\<rparr>) None)
       (unpaired_screen, ?w)
     = (unpaired_screen\<lparr>deviceCode := ''482913'',
          qrData := Some \<lparr>qr_type = ''pi_board_device'', qr_device_code = ''482913'',
             qr_device_id = fst (getDeviceId ?w), qr_timestamp = date_now ?w1\<rparr>,
          countdown := 600\<rparr>, ?w2,
        Some \<lparr>p_device_id = fst (getDeviceId ?w1), p_new_code = ''482913''\<rparr>)"
    by (simp add: DevicePairing_refreshDeviceCode_def c q u unpaired_screen_def)
  show ?thesis
    by (simp add: r c i2) (simp add: unpaired_screen_def)
qed

text \<open>
  The button "Refresh Code" in the same state does generate a code (here the draw
  \<open>1/2\<close> gives \<open>550000\<close>) and sends it.
\<close>

lemma refresh_button_draws_new_code:
  "deviceCode (fst (DevicePairing_refresh_button
         (Resolves (Some \<lparr>success = True, reply_error = None\<rparr>) None)
         (unpaired_screen, world_at 600000))) = ''550000''
   \<and> map_option p_new_code (snd (snd (DevicePairing_refresh_button
         (Resolves (Some \<lparr>success = True, reply_error = None\<rparr>) None)
         (unpaired_screen, world_at 600000)))) = Some ''550000''"
proof -
  let ?w = "world_at 600000"
  have t: "toString 550000 = ''550000''"
    by (simp add: toString_small toString_big)
  let ?w1 = "?w\<lparr>random_used := Suc 0,
      sessionStorage := \<lparr>throws = False, items = [''device_code'' \<mapsto> Str ''550000'']\<rparr>\<rparr>"
  have g: "refreshDeviceCode ?w = (Inr ''550000'', ?w1)"
    by (simp add: refreshDeviceCode_def generateDeviceCode_def Math_random_def setItem_def world_at_def t)
  have l: "\<not> throws (localStorage ?w1)" "items (localStorage ?w1) ''device_id'' = Some (Str ''device-1'')"
    by (simp_all add: world_at_def)
  let ?w2 = "snd (getDeviceId ?w1)"
  have s2: "sessionStorage ?w2 = sessionStorage ?w1"
    using getDeviceId_stored [OF l] by simp
  have c2: "getDeviceCode ?w2 = (''550000'', ?w2)"
    by (rule getDeviceCode_session) (simp_all add: s2)
  have u: "updateDeviceCode (Resolves (Some \<lparr>success = True, reply_error = None\<rparr>) None) ?w1
      = (Inr (), \<lparr>p_device_id = fst (getDeviceId ?w1), p_new_code = ''550000''\<rparr>, ?w2)"
    by (simp add: updateDeviceCode_def c2 case_prod_beta)
  show ?thesis
    by (simp add: DevicePairing_refresh_button_def g u case_prod_beta)
qed

subsection \<open>Registration\<close>

text \<open>
  Registration changes the world only through \<open>getDeviceId\<close> and \<open>getDeviceCode\<close>.
\<close>

lemma registerDevice_existing_world:
  "fst (snd (registerDevice_existing e i c w db)) = w"
  by (simp add: registerDevice_existing_def case_prod_beta)

lemma registerDevice_new_world:
  "fst (snd (registerDevice_new others i c w db)) = w"
  by (simp add: registerDevice_new_def case_prod_beta
      split: response.splits option.splits js_error.splits)

lemma registerDevice_world:
  "fst (snd (registerDevice others (w, db))) = snd (getDeviceCode (snd (getDeviceId w)))"
  by (simp add: registerDevice_def case_prod_beta registerDevice_existing_world
      registerDevice_new_world split: response.splits option.splits)

lemma others_keep:
  assumes "\<forall>x. map_option device_name (devices (others x) i) = map_option device_name (devices x i)
             \<and> map_option user_id (devices (others x) i) = map_option user_id (devices x i)"
    and "has_name_and_owner db i n u"
  shows "has_name_and_owner (others db) i n u"
  using assms by (simp add: has_name_and_owner_def)

lemma update_device_keeps:
  assumes "has_name_and_owner db i n u"
    and "\<And>d. device_name (p d) = device_name d \<and> user_id (p d) = user_id d"
  shows "has_name_and_owner (snd (update_device p i db)) i n u"
  using assms by (auto simp: has_name_and_owner_def update_device_def split: option.splits)

lemma insert_device_keeps:
  assumes "has_name_and_owner db (d_id d) n u"
  shows "snd (insert_device d db) = db"
    and "fst (insert_device d db)
           = Resolves None (Some (case insert_error db of None \<Rightarrow> PostgrestError ''23505'' | Some e \<Rightarrow> e))"
  using assms by (auto simp: has_name_and_owner_def insert_device_def split: option.splits)

lemma registerDevice_existing_keeps:
  assumes "has_name_and_owner db i n u" and "has_owner e"
  shows "has_name_and_owner (snd (snd (registerDevice_existing e i c w db))) i n u"
proof -
  have "has_name_and_owner (snd (update_device (updateData e c (date_iso w) (getIPAddress db)) i db)) i n u"
    using assms(1) by (rule update_device_keeps) (simp add: updateData_def assms(2))
  then show ?thesis
    by (simp add: registerDevice_existing_def case_prod_beta)
qed

lemma registerDevice_new_keeps:
  assumes "\<forall>x. map_option device_name (devices (others x) i) = map_option device_name (devices x i)
             \<and> map_option user_id (devices (others x) i) = map_option user_id (devices x i)"
    and "has_name_and_owner db i n u"
  shows "has_name_and_owner (snd (snd (registerDevice_new others i c w db))) i n u"
proof -
  let ?d = "new_device i c (date_iso w) (getIPAddress db)"
  have k: "has_name_and_owner db (d_id ?d) n u" using assms(2) by (simp add: new_device_def)
  have r: "insert_device ?d db
             = (Resolves None (Some (case insert_error db of None \<Rightarrow> PostgrestError ''23505'' | Some e \<Rightarrow> e)), db)"
    using insert_device_keeps [OF k] by (simp add: prod_eq_iff)
  have o: "has_name_and_owner (others db) i n u" by (rule others_keep [OF assms])
  have u: "has_name_and_owner (snd (update_device (duplicate_updateData c (date_iso w) (getIPAddress (others db))) i (others db))) i n u"
    using o by (rule update_device_keeps) (simp add: duplicate_updateData_def)
  show ?thesis
    using assms(2) u
    by (simp add: registerDevice_new_def r case_prod_beta split: option.splits js_error.splits)
qed

lemma registerDevice_owned:
  assumes "\<forall>x. map_option device_name (devices (others x) (fst (getDeviceId w)))
                  = map_option device_name (devices x (fst (getDeviceId w)))
             \<and> map_option user_id (devices (others x) (fst (getDeviceId w)))
                  = map_option user_id (devices x (fst (getDeviceId w)))"
    and "devices db (fst (getDeviceId w)) = Some d0" and "has_owner d0"
  shows "has_name_and_owner (snd (snd (registerDevice others (w, db)))) (fst (getDeviceId w))
           (device_name d0) (user_id d0)"
proof -
  let ?i = "fst (getDeviceId w)"
  let ?c = "fst (getDeviceCode (snd (getDeviceId w)))"
  let ?w = "snd (getDeviceCode (snd (getDeviceId w)))"
  have k: "has_name_and_owner db ?i (device_name d0) (user_id d0)"
    using assms(2) by (simp add: has_name_and_owner_def)
  have o: "has_name_and_owner (others db) ?i (device_name d0) (user_id d0)"
    by (rule others_keep [OF assms(1) k])
  have "registerDevice others (w, db) = registerDevice_existing d0 ?i ?c ?w (others db)
      \<or> registerDevice others (w, db) = registerDevice_new others ?i ?c ?w (others db)"
    using assms(2)
    by (cases "select_error db") (simp_all add: registerDevice_def case_prod_beta select_device_def)
  then show ?thesis
    using registerDevice_existing_keeps [OF o assms(3), of ?c ?w]
      registerDevice_new_keeps [OF assms(1) o, of ?c ?w]
    by auto
qed

lemma registerDevice_new_code:
  assumes "\<forall>x. map_option device_name (devices (others x) (fst (getDeviceId w)))
                  = map_option device_name (devices x (fst (getDeviceId w)))
             \<and> map_option user_id (devices (others x) (fst (getDeviceId w)))
                  = map_option user_id (devices x (fst (getDeviceId w)))"
    and "devices db (fst (getDeviceId w)) = Some d0"
    and "select_error db = None" and "update_error (others db) = None"
  shows "map_option device_code (devices (snd (snd (registerDevice others (w, db)))) (fst (getDeviceId w)))
           = Some (fst (getDeviceCode (snd (getDeviceId w))))"
proof -
  let ?i = "fst (getDeviceId w)"
  have "has_name_and_owner db ?i (device_name d0) (user_id d0)"
    using assms(2) by (simp add: has_name_and_owner_def)
  from others_keep [OF assms(1) this] obtain d1 where "devices (others db) ?i = Some d1"
    by (auto simp: has_name_and_owner_def)
  then show ?thesis
    using assms(2,3,4)
    by (simp add: registerDevice_def case_prod_beta select_device_def registerDevice_existing_def
        update_device_def updateData_def Let_def)
qed

lemma registerDevice_first:
  assumes "devices db (fst (getDeviceId w)) = None"
    and "devices (others db) (fst (getDeviceId w)) = None" and "insert_error (others db) = None"
  shows "devices (snd (snd (registerDevice others (w, db)))) (fst (getDeviceId w)) =
           Some (new_device (fst (getDeviceId w)) (fst (getDeviceCode (snd (getDeviceId w))))
                  (date_iso (snd (getDeviceCode (snd (getDeviceId w))))) (getIPAddress (others db)))"
  using assms
  by (simp add: registerDevice_def case_prod_beta select_device_def registerDevice_new_def
      insert_device_def new_device_def row_or_throw_def split: option.splits)

lemma updateDeviceCode_remote_record:
  assumes "devices db (fst (getDeviceId w)) = Some d0"
  shows "has_name_and_owner (snd (snd (updateDeviceCode_remote (w, db)))) (fst (getDeviceId w))
           (device_name d0) (user_id d0)"
    and "rpc_error db = None \<Longrightarrow>
           map_option device_code (devices (snd (snd (updateDeviceCode_remote (w, db)))) (fst (getDeviceId w)))
             = Some (fst (getDeviceCode (snd (getDeviceId w))))"
  using assms
  by (simp_all add: updateDeviceCode_remote_def case_prod_beta refresh_device_code_def has_name_and_owner_def
      split: option.splits)

lemma uuid_text_not_empty: "uuid_text h \<noteq> []"
  by (simp add: uuid_text_def)

lemma getDeviceId_twice:
  assumes "\<not> throws (localStorage w)"
  shows "\<not> throws (localStorage (snd (getDeviceId w)))"
    and "items (localStorage (snd (getDeviceId w))) ''device_id'' = Some (Str (fst (getDeviceId w)))"
    and "fst (getDeviceId w) \<noteq> []"
  using assms
  by (simp_all add: getDeviceId_def getDeviceId_try_def storage_defs randomUUID_def truthy_def
      uuid_text_not_empty split: option.splits item.splits)

lemma registerDevice_same_id:
  assumes "\<not> throws (localStorage w)"
  shows "fst (getDeviceId (fst (snd (registerDevice others (w, db))))) = fst (getDeviceId w)"
proof -
  let ?w1 = "snd (getDeviceId w)"
  let ?w2 = "snd (getDeviceCode ?w1)"
  note t = getDeviceId_twice [OF assms]
  have "localStorage ?w2 = localStorage ?w1" by (simp add: getDeviceCode_frame)
  with t have "\<not> throws (localStorage ?w2)"
    and "items (localStorage ?w2) ''device_id'' = Some (Str (fst (getDeviceId w)))"
    by simp_all
  from getDeviceId_stored(1) [OF this t(3)] show ?thesis
    by (simp add: registerDevice_world)
qed

text \<open>The example device and the example directories.\<close>

lemma world_at_identity:
  "fst (getDeviceId (world_at t)) = ''device-1''"
  "fst (getDeviceCode (snd (getDeviceId (world_at t)))) = ''482913''"
  "\<not> throws (localStorage (world_at t))"
proof -
  have l: "\<not> throws (localStorage (world_at t))"
    "items (localStorage (world_at t)) ''device_id'' = Some (Str ''device-1'')"
    by (simp_all add: world_at_def)
  from getDeviceId_stored [OF l] show "fst (getDeviceId (world_at t)) = ''device-1''" by simp
  have "sessionStorage (snd (getDeviceId (world_at t))) = sessionStorage (world_at t)"
    using getDeviceId_stored [OF l] by simp
  then have "\<not> throws (sessionStorage (snd (getDeviceId (world_at t))))"
    "items (sessionStorage (snd (getDeviceId (world_at t)))) ''device_code'' = Some (Str ''482913'')"
    by (simp_all add: world_at_def)
  then show "fst (getDeviceCode (snd (getDeviceId (world_at t)))) = ''482913''"
    by (simp add: getDeviceCode_def getDeviceCode_try_def getItem_def truthy_def)
  show "\<not> throws (localStorage (world_at t))" by (rule l)
qed

lemma example_directories:
  "devices empty_directory ''device-1'' = None" "insert_error empty_directory = None"
  "devices paired_directory ''device-1'' = Some paired_device" "has_owner paired_device"
  "device_name paired_device = ''Lobby screen''" "user_id paired_device = Some ''owner-1''"
  "select_error paired_directory = None" "update_error paired_directory = None"
  "rpc_error paired_directory = None"
  by (simp_all add: paired_directory_def empty_directory_def paired_device_def has_owner_def)

text \<open>
  The owner pairs and names the device between the select and the update of a
  registration: the record read has no owner, so the update carries a display name.
\<close>

lemma race_example:
  "map_option device_name (devices (pairing unpaired_directory) ''device-1'') = Some ''Lobby screen''"
  "map_option device_name
     (devices (snd (snd (registerDevice pairing (world_at 0, unpaired_directory)))) ''device-1'')
     = Some ''Pi Display 482913''"
  "map_option user_id
     (devices (snd (snd (registerDevice pairing (world_at 0, unpaired_directory)))) ''device-1'')
     = Some (Some ''owner-1'')"
  by (simp_all add: registerDevice_def case_prod_beta world_at_identity select_device_def
      unpaired_directory_def empty_directory_def pairing_def paired_device_def
      registerDevice_existing_def update_device_def updateData_def has_owner_def Let_def)

text \<open>
  Without \<open>localStorage\<close> every call of \<open>getDeviceId\<close> draws a new fallback identifier.
\<close>

lemma no_storage_example:
  "throws (localStorage no_storage_world)"
  "fst (getDeviceId no_storage_world) = ''fallback-9''"
  "fst (getDeviceId (fst (snd (registerDevice (\<lambda>x. x) (no_storage_world, empty_directory)))))
     = ''fallback-r''"
proof -
  show t: "throws (localStorage no_storage_world)" by (simp add: no_storage_world_def)
  have g: "getDeviceId no_storage_world = (''fallback-9'', no_storage_world\<lparr>random_used := Suc 0\<rparr>)"
    by (simp add: getDeviceId_def getDeviceId_try_def removeItem_def Math_random_def
        no_storage_world_def world_at_def)
  then show "fst (getDeviceId no_storage_world) = ''fallback-9''" by simp
  have c: "getDeviceCode (no_storage_world\<lparr>random_used := Suc 0\<rparr>)
             = (''482913'', no_storage_world\<lparr>random_used := Suc 0\<rparr>)"
    by (simp add: getDeviceCode_def getDeviceCode_try_def getItem_def truthy_def
        no_storage_world_def world_at_def)
  have "fst (snd (registerDevice (\<lambda>x. x) (no_storage_world, empty_directory)))
          = no_storage_world\<lparr>random_used := Suc 0\<rparr>"
    by (simp add: registerDevice_world g c)
  then show "fst (getDeviceId (fst (snd (registerDevice (\<lambda>x. x) (no_storage_world, empty_directory)))))
     = ''fallback-r''"
    by (simp add: getDeviceId_def getDeviceId_try_def removeItem_def Math_random_def
        no_storage_world_def world_at_def)
qed

text \<open>
  Claim C7, as the code has it. Let \<open>i\<close> be the identifier of the device and \<open>code\<close>
  the pairing code of the session, which may be a new one. (1) First registration: when
  the directory has no record of the device, neither at the select nor at the insert,
  and the insert is not refused, registration creates the record with the display name
  \<open>Pi Display\<close> followed by the code, and without owner. (2) Re-registration and
  rotation of the code by registration: when the record that registration reads has an
  owner, and the other clients of the directory leave the display name and the owner of
  the record alone while registration is under way, the record keeps its display name
  and its owner, whichever requests fail; and when the select and the update are
  answered, the record has the code of the session. (3) Rotation of the code by
  \<open>updateDeviceCode\<close>: the remote procedure, as the specification describes it,
  leaves the display name and the owner of the record as they are, and sets the code
  unless the request fails. (4) With a
  working \<open>localStorage\<close> the device identifier after a registration is the one the
  registration used.
\<close>

theorem registerDevice_display_name:
  "(devices db (fst (getDeviceId w)) = None \<and> devices (others db) (fst (getDeviceId w)) = None
      \<and> insert_error (others db) = None \<longrightarrow>
       map_option device_name (devices (snd (snd (registerDevice others (w, db)))) (fst (getDeviceId w)))
         = Some (''Pi Display '' @ fst (getDeviceCode (snd (getDeviceId w))))
     \<and> map_option user_id (devices (snd (snd (registerDevice others (w, db)))) (fst (getDeviceId w)))
         = Some None)
   \<and> (devices db (fst (getDeviceId w)) = Some d0 \<and> has_owner d0
      \<and> (\<forall>x. map_option device_name (devices (others x) (fst (getDeviceId w)))
                  = map_option device_name (devices x (fst (getDeviceId w)))
             \<and> map_option user_id (devices (others x) (fst (getDeviceId w)))
                  = map_option user_id (devices x (fst (getDeviceId w)))) \<longrightarrow>
       map_option device_name (devices (snd (snd (registerDevice others (w, db)))) (fst (getDeviceId w)))
         = Some (device_name d0)
     \<and> map_option user_id (devices (snd (snd (registerDevice others (w, db)))) (fst (getDeviceId w)))
         = Some (user_id d0)
     \<and> (select_error db = None \<and> update_error (others db) = None \<longrightarrow>
         map_option device_code (devices (snd (snd (registerDevice others (w, db)))) (fst (getDeviceId w)))
           = Some (fst (getDeviceCode (snd (getDeviceId w))))))
   \<and> (devices db (fst (getDeviceId w)) = Some d0 \<longrightarrow>
       map_option device_name (devices (snd (snd (updateDeviceCode_remote (w, db)))) (fst (getDeviceId w)))
         = Some (device_name d0)
     \<and> map_option user_id (devices (snd (snd (updateDeviceCode_remote (w, db)))) (fst (getDeviceId w)))
         = Some (user_id d0)
     \<and> (rpc_error db = None \<longrightarrow>
         map_option device_code (devices (snd (snd (updateDeviceCode_remote (w, db)))) (fst (getDeviceId w)))
           = Some (fst (getDeviceCode (snd (getDeviceId w))))))
   \<and> (\<not> throws (localStorage w) \<longrightarrow>
       fst (getDeviceId (fst (snd (registerDevice others (w, db))))) = fst (getDeviceId w))"
proof (intro conjI impI)
  assume a: "devices db (fst (getDeviceId w)) = None \<and> devices (others db) (fst (getDeviceId w)) = None
      \<and> insert_error (others db) = None"
  then have "devices (snd (snd (registerDevice others (w, db)))) (fst (getDeviceId w)) =
           Some (new_device (fst (getDeviceId w)) (fst (getDeviceCode (snd (getDeviceId w))))
                  (date_iso (snd (getDeviceCode (snd (getDeviceId w))))) (getIPAddress (others db)))"
    by (simp add: registerDevice_first)
  then show "map_option device_name (devices (snd (snd (registerDevice others (w, db)))) (fst (getDeviceId w)))
         = Some (''Pi Display '' @ fst (getDeviceCode (snd (getDeviceId w))))"
    and "map_option user_id (devices (snd (snd (registerDevice others (w, db)))) (fst (getDeviceId w))) = Some None"
    by (simp_all add: new_device_def)
next
  assume a: "devices db (fst (getDeviceId w)) = Some d0 \<and> has_owner d0
      \<and> (\<forall>x. map_option device_name (devices (others x) (fst (getDeviceId w)))
                  = map_option device_name (devices x (fst (getDeviceId w)))
             \<and> map_option user_id (devices (others x) (fst (getDeviceId w)))
                  = map_option user_id (devices x (fst (getDeviceId w))))"
  then have "has_name_and_owner (snd (snd (registerDevice others (w, db)))) (fst (getDeviceId w))
           (device_name d0) (user_id d0)"
    by (intro registerDevice_owned) simp_all
  then show "map_option device_name (devices (snd (snd (registerDevice others (w, db)))) (fst (getDeviceId w)))
         = Some (device_name d0)"
    and "map_option user_id (devices (snd (snd (registerDevice others (w, db)))) (fst (getDeviceId w)))
         = Some (user_id d0)"
    by (simp_all add: has_name_and_owner_def)
  assume "select_error db = None \<and> update_error (others db) = None"
  with a show "map_option device_code (devices (snd (snd (registerDevice others (w, db)))) (fst (getDeviceId w)))
           = Some (fst (getDeviceCode (snd (getDeviceId w))))"
    by (intro registerDevice_new_code [of others w db d0]) simp_all
next
  assume a: "devices db (fst (getDeviceId w)) = Some d0"
  from updateDeviceCode_remote_record(1) [OF a]
  show "map_option device_name (devices (snd (snd (updateDeviceCode_remote (w, db)))) (fst (getDeviceId w)))
         = Some (device_name d0)"
    and "map_option user_id (devices (snd (snd (updateDeviceCode_remote (w, db)))) (fst (getDeviceId w)))
         = Some (user_id d0)"
    by (simp_all add: has_name_and_owner_def)
  assume "rpc_error db = None"
  then show "map_option device_code (devices (snd (snd (updateDeviceCode_remote (w, db)))) (fst (getDeviceId w)))
           = Some (fst (getDeviceCode (snd (getDeviceId w))))"
    by (rule updateDeviceCode_remote_record(2) [OF a])
next
  assume "\<not> throws (localStorage w)"
  then show "fst (getDeviceId (fst (snd (registerDevice others (w, db))))) = fst (getDeviceId w)"
    by (rule registerDevice_same_id)
qed

text \<open>
  A witness for C7: the example device registers with an empty directory, and with a
  directory that knows it as the paired "Lobby screen" under an older code, nobody else
  writing in between.
\<close>

theorem registerDevice_display_name_witness:
  "devices empty_directory (fst (getDeviceId (world_at 0))) = None
   \<and> devices ((\<lambda>x. x) empty_directory) (fst (getDeviceId (world_at 0))) = None
   \<and> insert_error ((\<lambda>x. x) empty_directory) = None
   \<and> map_option device_name
        (devices (snd (snd (registerDevice (\<lambda>x. x) (world_at 0, empty_directory)))) ''device-1'')
       = Some ''Pi Display 482913''
   \<and> devices paired_directory (fst (getDeviceId (world_at 0))) = Some paired_device
   \<and> has_owner paired_device
   \<and> (\<forall>x. map_option device_name (devices ((\<lambda>x. x) x) (fst (getDeviceId (world_at 0))))
                  = map_option device_name (devices x (fst (getDeviceId (world_at 0))))
             \<and> map_option user_id (devices ((\<lambda>x. x) x) (fst (getDeviceId (world_at 0))))
                  = map_option user_id (devices x (fst (getDeviceId (world_at 0)))))
   \<and> select_error paired_directory = None \<and> update_error ((\<lambda>x. x) paired_directory) = None
   \<and> rpc_error paired_directory = None
   \<and> map_option device_name
        (devices (snd (snd (registerDevice (\<lambda>x. x) (world_at 0, paired_directory)))) ''device-1'')
       = Some ''Lobby screen''
   \<and> map_option device_code
        (devices (snd (snd (registerDevice (\<lambda>x. x) (world_at 0, paired_directory)))) ''device-1'')
       = Some ''482913''
   \<and> map_option device_name
        (devices (snd (snd (updateDeviceCode_remote (world_at 0, paired_directory)))) ''device-1'')
       = Some ''Lobby screen''
   \<and> map_option device_code
        (devices (snd (snd (updateDeviceCode_remote (world_at 0, paired_directory)))) ''device-1'')
       = Some ''482913''
   \<and> \<not> throws (localStorage (world_at 0))
   \<and> fst (getDeviceId (fst (snd (registerDevice (\<lambda>x. x) (world_at 0, paired_directory))))) = ''device-1''"
  using example_directories world_at_identity [of 0]
    registerDevice_display_name [of empty_directory "world_at 0" "\<lambda>x. x" paired_device]
    registerDevice_display_name [of paired_directory "world_at 0" "\<lambda>x. x" paired_device]
  by simp

text \<open>
  Claim C7 as stated fails in three ways. At the first registration the display name
  is \<open>Pi Display 482913\<close>, which is not \<open>Display\<close> followed by the code. When the
  owner pairs the device and names it "Lobby screen" while a registration waits between
  its select and its update, the registration overwrites the name of a record that has
  an owner. And in a browser that refuses access to \<open>localStorage\<close>, the identifier
  after a registration differs from the one the registration used.
\<close>

theorem registerDevice_display_name_counterexample:
  "(devices empty_directory (fst (getDeviceId (world_at 0))) = None
    \<and> fst (getDeviceCode (snd (getDeviceId (world_at 0)))) = ''482913''
    \<and> map_option device_name
         (devices (snd (snd (registerDevice (\<lambda>x. x) (world_at 0, empty_directory))))
            (fst (getDeviceId (world_at 0)))) = Some ''Pi Display 482913''
    \<and> map_option device_name
         (devices (snd (snd (registerDevice (\<lambda>x. x) (world_at 0, empty_directory))))
            (fst (getDeviceId (world_at 0))))
        \<noteq> Some (''Display '' @ fst (getDeviceCode (snd (getDeviceId (world_at 0))))))
   \<and> (map_option device_name (devices (pairing unpaired_directory) (fst (getDeviceId (world_at 0))))
        = Some ''Lobby screen''
      \<and> map_option user_id
           (devices (snd (snd (registerDevice pairing (world_at 0, unpaired_directory))))
              (fst (getDeviceId (world_at 0)))) = Some (Some ''owner-1'')
      \<and> map_option device_name
           (devices (snd (snd (registerDevice pairing (world_at 0, unpaired_directory))))
              (fst (getDeviceId (world_at 0)))) = Some ''Pi Display 482913'')
   \<and> (throws (localStorage no_storage_world)
      \<and> fst (getDeviceId no_storage_world) = ''fallback-9''
      \<and> fst (getDeviceId (fst (snd (registerDevice (\<lambda>x. x) (no_storage_world, empty_directory)))))
          = ''fallback-r''
      \<and> fst (getDeviceId (fst (snd (registerDevice (\<lambda>x. x) (no_storage_world, empty_directory)))))
          \<noteq> fst (getDeviceId no_storage_world))"
proof -
  have "devices (snd (snd (registerDevice (\<lambda>x. x) (world_at 0, empty_directory)))) (fst (getDeviceId (world_at 0))) =
           Some (new_device (fst (getDeviceId (world_at 0))) (fst (getDeviceCode (snd (getDeviceId (world_at 0)))))
                  (date_iso (snd (getDeviceCode (snd (getDeviceId (world_at 0)))))) (getIPAddress ((\<lambda>x. x) empty_directory)))"
    by (intro registerDevice_first) (simp_all add: world_at_identity example_directories)
  then show ?thesis
    by (simp add: world_at_identity new_device_def example_directories race_example no_storage_example)
qed

end
